theory Spec2Isabelle
  imports Main
begin

section \<open>PDF2JPG service: a model of \<open>main.py\<close>\<close>

text \<open>
  The service is an orchestration layer over a file system, an HTTP client, a PDF
  rasterizer and a ZIP writer. The model passes the file system and an event trace
  explicitly (record \<open>world\<close>), takes the outcome of every call into an external
  capability from a record of oracles (\<open>env\<close>), and represents a Python exception as
  the value \<open>Raise e\<close> of the result type, so that every \<open>try\<close>/\<open>except\<close> of the
  source is a case distinction of the model.
\<close>

subsection \<open>Strings\<close>

type_synonym path = string
type_synonym bytes = "nat list"

text \<open>\<open>s.startswith(pre)\<close>, \<open>s.endswith(suf)\<close> and \<open>sub in s\<close>.\<close>

definition startswith :: "string \<Rightarrow> string \<Rightarrow> bool" where
  "startswith s pre = (take (length pre) s = pre)"

definition endswith :: "string \<Rightarrow> string \<Rightarrow> bool" where
  "endswith s suf = (length suf \<le> length s \<and> drop (length s - length suf) s = suf)"

fun contains :: "string \<Rightarrow> string \<Rightarrow> bool" where
  "contains [] sub = (sub = [])"
| "contains (c # cs) sub = (startswith (c # cs) sub \<or> contains cs sub)"

text \<open>\<open>str.lower()\<close> on the ASCII letters; every other character is kept.\<close>

definition lower_char :: "char \<Rightarrow> char" where
  "lower_char c =
     (case map_of (zip ''ABCDEFGHIJKLMNOPQRSTUVWXYZ'' ''abcdefghijklmnopqrstuvwxyz'') c of
        Some l \<Rightarrow> l
      | None \<Rightarrow> c)"

definition lower :: "string \<Rightarrow> string" where
  "lower s = map lower_char s"

text \<open>
  \<open>os.path.join(a, b)\<close> of \<open>posixpath\<close>: an absolute \<open>b\<close> replaces \<open>a\<close>; otherwise
  the separator is inserted unless \<open>a\<close> is empty or already ends with it.
\<close>

definition path_join :: "path \<Rightarrow> path \<Rightarrow> path" where
  "path_join a b =
     (if startswith b ''/'' then b
      else if a = [] \<or> endswith a ''/'' then a @ b
      else a @ ''/'' @ b)"

text \<open>The decimal digits of a natural number, and the format specification \<open>03d\<close>:
  zero padding on the left up to width three, never truncating.\<close>

fun str_nat :: "nat \<Rightarrow> string" where
  "str_nat n =
     (if n < 10 then [''0123456789'' ! n]
      else str_nat (n div 10) @ [''0123456789'' ! (n mod 10)])"

declare str_nat.simps [simp del]

definition format_03d :: "nat \<Rightarrow> string" where
  "format_03d n = replicate (3 - length (str_nat n)) (CHR ''0'') @ str_nat n"

text \<open>\<open>f'page_{i+1:03d}.jpg'\<close> for the loop index \<open>i\<close> of \<open>enumerate\<close>.\<close>

definition page_name :: "nat \<Rightarrow> string" where
  "page_name i = ''page_'' @ format_03d (i + 1) @ ''.jpg''"

subsection \<open>Exceptions, file system, trace\<close>

text \<open>
  \<open>HTTPException status detail\<close> is FastAPI's exception; \<open>Error msg\<close> stands for any
  other subclass of \<open>Exception\<close>, with \<open>str(e) = msg\<close>. The libraries never raise
  an \<open>HTTPException\<close>: an oracle that reports a failure gives the message only.
\<close>

datatype exn = HTTPException nat string | Error string

datatype 'a outcome = Return 'a | Raise exn

datatype node = File bytes | Dir

type_synonym filesystem = "path \<Rightarrow> node option"

datatype level = INFO | WARNING | ERROR

datatype event = Log level | HttpGet string | Rmtree path

record world =
  fs :: filesystem
  trace :: "event list"

definition emit :: "event \<Rightarrow> world \<Rightarrow> world" where
  "emit ev w = w\<lparr>trace := trace w @ [ev]\<rparr>"

definition put :: "path \<Rightarrow> node \<Rightarrow> world \<Rightarrow> world" where
  "put p n w = w\<lparr>fs := (fs w)(p \<mapsto> n)\<rparr>"

subsection \<open>External capabilities\<close>

type_synonym image = "nat list"

text \<open>
  The answer of \<open>requests.get\<close> with \<open>stream=True\<close>: either the call raises, or a
  response arrives with a status code, a \<open>content-type\<close> header (empty when absent),
  the chunks that reach the file, and the error that ends the loop of lines 45--47
  early, if any: the stream breaks or \<open>f.write\<close> fails.
\<close>

datatype http_reply = ConnectionError string | Reply nat string "bytes list" "string option"

text \<open>
  The oracles: \<open>*_fault\<close> gives the message of the exception that the call raises,
  if it raises. \<open>rmtree_deleted d\<close> tells which paths below \<open>d\<close> a failing
  \<open>shutil.rmtree(d)\<close> has deleted before it raises. \<open>write_fault p\<close> gives, for a
  failing \<open>f.write\<close> on the file opened at \<open>p\<close>, the message and the number of
  bytes that reached the file.
\<close>

record env =
  uuid4 :: string
  requests_get :: "string \<Rightarrow> http_reply"
  open_fault :: "path \<Rightarrow> string option"
  convert_from_path :: "path \<Rightarrow> string + image list"
  jpeg_bytes :: "image \<Rightarrow> bytes"
  save_fault :: "path \<Rightarrow> string option"
  zip_open_fault :: "path \<Rightarrow> string option"
  zip_write_fault :: "path \<Rightarrow> string option"
  zip_bytes :: "(string \<times> bytes) list \<Rightarrow> bytes"
  rmtree_fault :: "path \<Rightarrow> string option"
  rmtree_deleted :: "path \<Rightarrow> path \<Rightarrow> bool"
  makedirs_fault :: "path \<Rightarrow> string option"
  write_fault :: "path \<Rightarrow> (string \<times> nat) option"

subsection \<open>The \<open>os\<close> and \<open>shutil\<close> calls\<close>

definition os_path_exists :: "world \<Rightarrow> path \<Rightarrow> bool" where
  "os_path_exists w p = (fs w p \<noteq> None)"

text \<open>\<open>os.path.getsize\<close>; a directory reports the size of its own inode.\<close>

definition os_path_getsize :: "world \<Rightarrow> path \<Rightarrow> nat outcome" where
  "os_path_getsize w p =
     (case fs w p of
        None \<Rightarrow> Raise (Error ''FileNotFoundError'')
      | Some Dir \<Rightarrow> Return 4096
      | Some (File b) \<Rightarrow> Return (length b))"

definition os_remove :: "path \<Rightarrow> world \<Rightarrow> unit outcome \<times> world" where
  "os_remove p w =
     (case fs w p of
        None \<Rightarrow> (Raise (Error ''FileNotFoundError''), w)
      | Some Dir \<Rightarrow> (Raise (Error ''IsADirectoryError''), w)
      | Some (File b) \<Rightarrow> (Return (), w\<lparr>fs := (fs w)(p := None)\<rparr>))"

text \<open>\<open>open(p, 'wb')\<close> creates the file or truncates it.\<close>

definition open_wb :: "env \<Rightarrow> path \<Rightarrow> world \<Rightarrow> unit outcome \<times> world" where
  "open_wb env p w =
     (if fs w p = Some Dir then (Raise (Error ''IsADirectoryError''), w)
      else case open_fault env p of
             Some msg \<Rightarrow> (Raise (Error msg), w)
           | None \<Rightarrow> (Return (), put p (File []) w))"

text \<open>
  \<open>os.makedirs(d, exist_ok=True)\<close>. The parent \<open>TEMP_DIR\<close> is created when the module
  is loaded (line 21), so only the leaf is tracked.
\<close>

definition os_makedirs :: "env \<Rightarrow> path \<Rightarrow> world \<Rightarrow> unit outcome \<times> world" where
  "os_makedirs env d w =
     (case fs w d of
        Some Dir \<Rightarrow> (Return (), w)
      | Some (File b) \<Rightarrow> (Raise (Error ''FileExistsError''), w)
      | None \<Rightarrow>
          (case makedirs_fault env d of
             Some msg \<Rightarrow> (Raise (Error msg), w)
           | None \<Rightarrow> (Return (), put d Dir w)))"

text \<open>
  \<open>shutil.rmtree(d)\<close> removes \<open>d\<close> and every path below it. A removal that fails
  has deleted some of the paths below \<open>d\<close> and leaves the directory itself in place.
\<close>

definition inside :: "path \<Rightarrow> path \<Rightarrow> bool" where
  "inside d p = (p = d \<or> startswith p (path_join d []))"

definition remove_tree :: "path \<Rightarrow> filesystem \<Rightarrow> filesystem" where
  "remove_tree d f = (\<lambda>p. if inside d p then None else f p)"

definition remove_some :: "path \<Rightarrow> (path \<Rightarrow> bool) \<Rightarrow> filesystem \<Rightarrow> filesystem" where
  "remove_some d deleted f = (\<lambda>p. if inside d p \<and> p \<noteq> d \<and> deleted p then None else f p)"

definition shutil_rmtree :: "env \<Rightarrow> path \<Rightarrow> world \<Rightarrow> unit outcome \<times> world" where
  "shutil_rmtree env d w0 =
     (let w = emit (Rmtree d) w0 in
      case fs w d of
        None \<Rightarrow> (Raise (Error ''FileNotFoundError''), w)
      | Some (File b) \<Rightarrow> (Raise (Error ''NotADirectoryError''), w)
      | Some Dir \<Rightarrow>
          (case rmtree_fault env d of
             Some msg \<Rightarrow>
               (Raise (Error msg), w\<lparr>fs := remove_some d (rmtree_deleted env d) (fs w)\<rparr>)
           | None \<Rightarrow> (Return (), w\<lparr>fs := remove_tree d (fs w)\<rparr>)))"

subsection \<open>\<open>download_pdf_from_url\<close> (lines 23--61)\<close>

definition write_chunks :: "path \<Rightarrow> bytes list \<Rightarrow> world \<Rightarrow> world" where
  "write_chunks p chunks w = put p (File (concat (filter (\<lambda>c. c \<noteq> []) chunks))) w"

text \<open>\<open>response.raise_for_status()\<close> raises for the 4xx and 5xx codes.\<close>

definition raise_for_status :: "nat \<Rightarrow> exn option" where
  "raise_for_status status =
     (if 400 \<le> status \<and> status < 600 then Some (Error ''HTTPError'') else None)"

text \<open>The body of the \<open>try\<close> block, lines 26--55.\<close>

definition download_try :: "env \<Rightarrow> string \<Rightarrow> path \<Rightarrow> world \<Rightarrow> bool outcome \<times> world" where
  "download_try env url output_path w0 =
     (let w1 = emit (HttpGet url) (emit (Log INFO) w0) in
      case requests_get env url of
        ConnectionError msg \<Rightarrow> (Raise (Error msg), w1)
      | Reply status content_type chunks fault \<Rightarrow>
          (case raise_for_status status of
             Some e \<Rightarrow> (Raise e, w1)
           | None \<Rightarrow>
               (let w2 = (if \<not> contains (lower content_type) ''pdf'' \<and> \<not> endswith url ''.pdf''
                          then emit (Log WARNING) w1 else w1) in
                case open_wb env output_path w2 of
                  (Raise e, w3) \<Rightarrow> (Raise e, w3)
                | (Return u, w3) \<Rightarrow>
                    (let w4 = write_chunks output_path chunks w3 in
                     case fault of
                       Some msg \<Rightarrow> (Raise (Error msg), w4)
                     | None \<Rightarrow>
                         (case os_path_getsize w4 output_path of
                            Raise e \<Rightarrow> (Raise e, w4)
                          | Return n \<Rightarrow>
                              if n = 0 then (Return False, emit (Log ERROR) w4)
                              else (Return True, emit (Log INFO) w4))))))"

text \<open>The whole function: the \<open>except Exception\<close> handler of lines 57--61 removes
  the file when it exists and returns \<open>False\<close>.\<close>

definition download_pdf_from_url :: "env \<Rightarrow> string \<Rightarrow> path \<Rightarrow> world \<Rightarrow> bool outcome \<times> world" where
  "download_pdf_from_url env url output_path w0 =
     (case download_try env url output_path w0 of
        (Return b, w) \<Rightarrow> (Return b, w)
      | (Raise e, w) \<Rightarrow>
          (let w1 = emit (Log ERROR) w in
           if os_path_exists w1 output_path then
             (case os_remove output_path w1 of
                (Raise e', w2) \<Rightarrow> (Raise e', w2)
              | (Return u, w2) \<Rightarrow> (Return False, w2))
           else (Return False, w1)))"

subsection \<open>\<open>convert_pdf_to_images\<close> (lines 63--89)\<close>

text \<open>\<open>image.save(image_path, 'JPEG', quality=85, optimize=True)\<close>.\<close>

definition image_save :: "env \<Rightarrow> image \<Rightarrow> path \<Rightarrow> world \<Rightarrow> unit outcome \<times> world" where
  "image_save env img p w =
     (case save_fault env p of
        Some msg \<Rightarrow> (Raise (Error msg), w)
      | None \<Rightarrow> (Return (), put p (File (jpeg_bytes env img)) w))"

text \<open>The loop of lines 78--82: \<open>i\<close> is the index of \<open>enumerate\<close>, \<open>image_paths\<close> the
  list built so far.\<close>

fun save_pages ::
  "env \<Rightarrow> path \<Rightarrow> image list \<Rightarrow> nat \<Rightarrow> path list \<Rightarrow> world \<Rightarrow> path list outcome \<times> world" where
  "save_pages env output_dir [] i image_paths w = (Return image_paths, w)"
| "save_pages env output_dir (img # imgs) i image_paths w =
     (let image_path = path_join output_dir (page_name i) in
      case image_save env img image_path w of
        (Raise e, w1) \<Rightarrow> (Raise e, w1)
      | (Return u, w1) \<Rightarrow>
          save_pages env output_dir imgs (i + 1) (image_paths @ [image_path])
            (emit (Log INFO) w1))"

definition convert_try :: "env \<Rightarrow> path \<Rightarrow> path \<Rightarrow> world \<Rightarrow> path list outcome \<times> world" where
  "convert_try env pdf_path output_dir w0 =
     (let w1 = emit (Log INFO) w0 in
      case convert_from_path env pdf_path of
        Inl msg \<Rightarrow> (Raise (Error msg), w1)
      | Inr images \<Rightarrow>
          (case save_pages env output_dir images 0 [] w1 of
             (Raise e, w2) \<Rightarrow> (Raise e, w2)
           | (Return image_paths, w2) \<Rightarrow> (Return image_paths, emit (Log INFO) w2)))"

definition convert_pdf_to_images :: "env \<Rightarrow> path \<Rightarrow> path \<Rightarrow> world \<Rightarrow> path list outcome \<times> world" where
  "convert_pdf_to_images env pdf_path output_dir w0 =
     (case convert_try env pdf_path output_dir w0 of
        (Return image_paths, w) \<Rightarrow> (Return image_paths, w)
      | (Raise e, w) \<Rightarrow> (Return [], emit (Log ERROR) w))"

subsection \<open>\<open>create_zip_file\<close> (lines 91--114)\<close>

type_synonym zip_entry = "string \<times> bytes"

text \<open>\<open>zipfile.ZipFile(zip_path, 'w', ZIP_DEFLATED)\<close> creates or truncates the file.\<close>

definition zipfile_open :: "env \<Rightarrow> path \<Rightarrow> world \<Rightarrow> unit outcome \<times> world" where
  "zipfile_open env p w =
     (if fs w p = Some Dir then (Raise (Error ''IsADirectoryError''), w)
      else case zip_open_fault env p of
             Some msg \<Rightarrow> (Raise (Error msg), w)
           | None \<Rightarrow> (Return (), put p (File []) w))"

text \<open>\<open>zipf.write(image_path, arcname)\<close> yields the entry that is added: the file's
  content under \<open>arcname\<close>; a directory becomes an empty entry whose name ends with
  the separator.\<close>

definition zipf_write :: "env \<Rightarrow> path \<Rightarrow> string \<Rightarrow> world \<Rightarrow> zip_entry outcome" where
  "zipf_write env image_path arcname w =
     (case zip_write_fault env image_path of
        Some msg \<Rightarrow> Raise (Error msg)
      | None \<Rightarrow>
          (case fs w image_path of
             None \<Rightarrow> Raise (Error ''FileNotFoundError'')
           | Some Dir \<Rightarrow> Return (arcname @ ''/'', [])
           | Some (File b) \<Rightarrow> Return (arcname, b)))"

text \<open>The loop of lines 97--102. It returns the entries added and the exception
  that interrupted it, if any: the \<open>with\<close> statement closes the archive either way.\<close>

fun zip_pages ::
  "env \<Rightarrow> path list \<Rightarrow> nat \<Rightarrow> zip_entry list \<Rightarrow> world \<Rightarrow> (zip_entry list \<times> exn option) \<times> world" where
  "zip_pages env [] i entries w = ((entries, None), w)"
| "zip_pages env (image_path # rest) i entries w =
     (if os_path_exists w image_path then
        (let arcname = page_name i in
         case zipf_write env image_path arcname w of
           Raise e \<Rightarrow> ((entries, Some e), w)
         | Return entry \<Rightarrow> zip_pages env rest (i + 1) (entries @ [entry]) (emit (Log INFO) w))
      else zip_pages env rest (i + 1) entries w)"

definition zipfile_close :: "env \<Rightarrow> path \<Rightarrow> zip_entry list \<Rightarrow> world \<Rightarrow> world" where
  "zipfile_close env p entries w = put p (File (zip_bytes env entries)) w"

definition create_zip_try :: "env \<Rightarrow> path list \<Rightarrow> path \<Rightarrow> world \<Rightarrow> bool outcome \<times> world" where
  "create_zip_try env image_paths zip_path w0 =
     (let w1 = emit (Log INFO) w0 in
      case zipfile_open env zip_path w1 of
        (Raise e, w2) \<Rightarrow> (Raise e, w2)
      | (Return u, w2) \<Rightarrow>
          (case zip_pages env image_paths 0 [] w2 of
             ((entries, fault), w3) \<Rightarrow>
               (let w4 = zipfile_close env zip_path entries w3 in
                case fault of
                  Some e \<Rightarrow> (Raise e, w4)
                | None \<Rightarrow>
                    if os_path_exists w4 zip_path then
                      (case os_path_getsize w4 zip_path of
                         Raise e \<Rightarrow> (Raise e, w4)
                       | Return n \<Rightarrow>
                           if n > 0 then (Return True, emit (Log INFO) w4)
                           else (Return False, emit (Log ERROR) w4))
                    else (Return False, emit (Log ERROR) w4))))"

definition create_zip_file :: "env \<Rightarrow> path list \<Rightarrow> path \<Rightarrow> world \<Rightarrow> bool outcome \<times> world" where
  "create_zip_file env image_paths zip_path w0 =
     (case create_zip_try env image_paths zip_path w0 of
        (Return b, w) \<Rightarrow> (Return b, w)
      | (Raise e, w) \<Rightarrow> (Return False, emit (Log ERROR) w))"

subsection \<open>\<open>cleanup_directory\<close> (lines 116--123)\<close>

definition cleanup_try :: "env \<Rightarrow> path \<Rightarrow> world \<Rightarrow> unit outcome \<times> world" where
  "cleanup_try env directory w0 =
     (if os_path_exists w0 directory then
        (case shutil_rmtree env directory w0 of
           (Raise e, w) \<Rightarrow> (Raise e, w)
         | (Return u, w) \<Rightarrow> (Return (), emit (Log INFO) w))
      else (Return (), w0))"

definition cleanup_directory :: "env \<Rightarrow> path \<Rightarrow> world \<Rightarrow> unit outcome \<times> world" where
  "cleanup_directory env directory w0 =
     (case cleanup_try env directory w0 of
        (Return u, w) \<Rightarrow> (Return (), w)
      | (Raise e, w) \<Rightarrow> (Return (), emit (Log WARNING) w))"

subsection \<open>The handler \<open>convert_pdf\<close> (lines 147--271)\<close>

text \<open>An uploaded file: its name and what \<open>await pdf.read()\<close> gives.\<close>

datatype upload = UploadFile (filename: string) (read: "string + bytes")

text \<open>\<open>FileResponse(path, media_type, filename, background)\<close>; the background
  callable is \<open>cleanup_directory\<close> applied to the directory recorded here.\<close>

datatype response = FileResponse path string string path

definition TEMP_DIR :: path where
  "TEMP_DIR = ''temp''"

text \<open>Truthiness of the two optional parameters: an \<open>UploadFile\<close> object is always
  true, a string is true unless it is empty, \<open>None\<close> is false.\<close>

definition truthy_file :: "upload option \<Rightarrow> bool" where
  "truthy_file pdf = (pdf \<noteq> None)"

definition truthy_str :: "string option \<Rightarrow> bool" where
  "truthy_str s = (s \<noteq> None \<and> s \<noteq> Some [])"

text \<open>\<open>not os.path.exists(p) or os.path.getsize(p) == 0\<close>.\<close>

definition missing_or_empty :: "world \<Rightarrow> path \<Rightarrow> bool outcome" where
  "missing_or_empty w p =
     (if \<not> os_path_exists w p then Return True
      else case os_path_getsize w p of
             Raise e \<Rightarrow> Raise e
           | Return n \<Rightarrow> Return (n = 0))"

text \<open>Lines 184--192, the URL branch.\<close>

definition resolve_url :: "env \<Rightarrow> string \<Rightarrow> path \<Rightarrow> world \<Rightarrow> path outcome \<times> world" where
  "resolve_url env pdf_url temp_dir w0 =
     (let w1 = emit (Log INFO) w0;
          pdf_path = path_join temp_dir ''input.pdf'' in
      case download_pdf_from_url env pdf_url pdf_path w1 of
        (Raise e, w2) \<Rightarrow> (Raise e, w2)
      | (Return ok, w2) \<Rightarrow>
          if \<not> ok then
            (Raise (HTTPException 400 ''No se pudo descargar el PDF desde la URL''), w2)
          else (Return pdf_path, w2))"

text \<open>\<open>f.write(content)\<close> on the file just opened at \<open>p\<close>, inside the \<open>with\<close>
  statement of lines 215--216: a write that fails leaves the bytes written so far.
  The value returned on success is passed in.\<close>

definition file_write :: "env \<Rightarrow> path \<Rightarrow> bytes \<Rightarrow> 'a \<Rightarrow> world \<Rightarrow> 'a outcome \<times> world" where
  "file_write env p content result w =
     (case write_fault env p of
        Some (msg, n) \<Rightarrow> (Raise (Error msg), put p (File (take n content)) w)
      | None \<Rightarrow> (Return result, put p (File content) w))"

text \<open>Lines 195--216, the upload branch.\<close>

definition resolve_upload :: "env \<Rightarrow> upload \<Rightarrow> path \<Rightarrow> world \<Rightarrow> path outcome \<times> world" where
  "resolve_upload env pdf temp_dir w0 =
     (let w1 = emit (Log INFO) w0 in
      if \<not> endswith (lower (filename pdf)) ''.pdf'' then
        (Raise (HTTPException 400 ''El archivo debe ser PDF''), w1)
      else
        (let pdf_path = path_join temp_dir ''input.pdf'' in
         case read pdf of
           Inl msg \<Rightarrow> (Raise (Error msg), w1)
         | Inr content \<Rightarrow>
             if length content = 0 then
               (Raise (HTTPException 400
                  (''El archivo PDF est'' @ [CHR 0xE1] @ '' vac'' @ [CHR 0xED] @ ''o'')), w1)
             else
               (case open_wb env pdf_path w1 of
                  (Raise e, w2) \<Rightarrow> (Raise e, w2)
                | (Return u, w2) \<Rightarrow> file_write env pdf_path content pdf_path w2)))"

definition resolve_source ::
  "env \<Rightarrow> upload option \<Rightarrow> string option \<Rightarrow> path \<Rightarrow> world \<Rightarrow> path outcome \<times> world" where
  "resolve_source env pdf pdf_url temp_dir w =
     (if truthy_str pdf_url then
        resolve_url env (case pdf_url of Some u \<Rightarrow> u | None \<Rightarrow> []) temp_dir w
      else
        (case pdf of
           Some f \<Rightarrow> resolve_upload env f temp_dir w
         | None \<Rightarrow> (Raise (Error ''AttributeError''), w)))"

text \<open>Lines 218--257: verify the PDF, rasterize, build and verify the archive,
  answer with the file.\<close>

definition render_and_respond :: "env \<Rightarrow> path \<Rightarrow> path \<Rightarrow> world \<Rightarrow> response outcome \<times> world" where
  "render_and_respond env pdf_path temp_dir w0 =
     (case missing_or_empty w0 pdf_path of
        Raise e \<Rightarrow> (Raise e, w0)
      | Return True \<Rightarrow>
          (Raise (HTTPException 400
             (''PDF inv'' @ [CHR 0xE1] @ ''lido o vac'' @ [CHR 0xED] @ ''o'')), w0)
      | Return False \<Rightarrow>
          (case convert_pdf_to_images env pdf_path temp_dir w0 of
             (Raise e, w1) \<Rightarrow> (Raise e, w1)
           | (Return image_paths, w1) \<Rightarrow>
               if image_paths = [] then
                 (Raise (HTTPException 500
                    (''No se pudieron generar im'' @ [CHR 0xE1] @ ''genes del PDF'')), w1)
               else
                 (let zip_path = path_join temp_dir ''images.zip'' in
                  case create_zip_file env image_paths zip_path w1 of
                    (Raise e, w2) \<Rightarrow> (Raise e, w2)
                  | (Return ok, w2) \<Rightarrow>
                      if \<not> ok then
                        (Raise (HTTPException 500 ''No se pudo crear el archivo ZIP''), w2)
                      else
                        (case missing_or_empty w2 zip_path of
                           Raise e \<Rightarrow> (Raise e, w2)
                         | Return True \<Rightarrow>
                             (Raise (HTTPException 500
                                (''El archivo ZIP est'' @ [CHR 0xE1] @ '' vac'' @ [CHR 0xED]
                                 @ ''o o corrupto'')), w2)
                         | Return False \<Rightarrow>
                             (Return (FileResponse zip_path ''application/zip''
                                        ''converted_images.zip'' temp_dir),
                              emit (Log INFO) w2)))))"

text \<open>The body of the \<open>try\<close> block, lines 182--257.\<close>

definition convert_try_block ::
  "env \<Rightarrow> upload option \<Rightarrow> string option \<Rightarrow> path \<Rightarrow> world \<Rightarrow> response outcome \<times> world" where
  "convert_try_block env pdf pdf_url temp_dir w0 =
     (case resolve_source env pdf pdf_url temp_dir w0 of
        (Raise e, w1) \<Rightarrow> (Raise e, w1)
      | (Return pdf_path, w1) \<Rightarrow> render_and_respond env pdf_path temp_dir w1)"

text \<open>The two handlers of lines 259--271: both call \<open>cleanup_directory\<close>; the first
  raises the \<open>HTTPException\<close> again, the second turns any other exception into
  status 500.\<close>

definition convert_except :: "env \<Rightarrow> path \<Rightarrow> exn \<Rightarrow> world \<Rightarrow> response outcome \<times> world" where
  "convert_except env temp_dir e w0 =
     (case e of
        HTTPException c d \<Rightarrow>
          (case cleanup_directory env temp_dir w0 of
             (Raise e', w1) \<Rightarrow> (Raise e', w1)
           | (Return u, w1) \<Rightarrow> (Raise (HTTPException c d), w1))
      | Error msg \<Rightarrow>
          (case cleanup_directory env temp_dir (emit (Log ERROR) w0) of
             (Raise e', w1) \<Rightarrow> (Raise e', w1)
           | (Return u, w1) \<Rightarrow>
               (Raise (HTTPException 500 (''Error interno del servidor: '' @ msg)), w1)))"

definition convert_pdf ::
  "env \<Rightarrow> upload option \<Rightarrow> string option \<Rightarrow> world \<Rightarrow> response outcome \<times> world" where
  "convert_pdf env pdf pdf_url w0 =
     (if \<not> truthy_file pdf \<and> \<not> truthy_str pdf_url then
        (Raise (HTTPException 422 ''Debe proporcionar 'pdf' (archivo) o 'pdf_url' (URL)''), w0)
      else if truthy_file pdf \<and> truthy_str pdf_url then
        (Raise (HTTPException 422 ''Proporcione solo 'pdf' o 'pdf_url', no ambos''), w0)
      else
        (let session_id = uuid4 env;
             temp_dir = path_join TEMP_DIR session_id in
         case os_makedirs env temp_dir w0 of
           (Raise e, w1) \<Rightarrow> (Raise e, w1)
         | (Return u, w1) \<Rightarrow>
             (case convert_try_block env pdf pdf_url temp_dir w1 of
                (Return r, w2) \<Rightarrow> (Return r, w2)
              | (Raise e, w2) \<Rightarrow> convert_except env temp_dir e w2)))"

subsection \<open>The request as the framework serves it\<close>

text \<open>
  FastAPI turns what the handler gives into the HTTP response. An \<open>HTTPException\<close>
  becomes a response with its status and detail; any other exception becomes status
  500. A returned \<open>FileResponse\<close> is sent by Starlette, which first reads the
  \<open>Range\<close> header of the request: without one the whole file is sent with status
  200, and byte ranges that the file can satisfy are sent with status 206 (the
  multipart framing of several ranges is left out of the body here); in both cases
  the background callable runs once the body has been sent. A range that cannot be
  satisfied is answered with status 416 and a malformed header with status 400 and
  a message, and in these two cases the response returns before the background
  callable is reached. Neither is it reached when sending fails because the
  connection is lost after some bytes of the body. The value of type \<open>delivery\<close>
  says which of these happens to a returned \<open>FileResponse\<close>; it plays no role when
  the handler raises.
\<close>

datatype delivery =
  NoRange
| RangeSatisfiable "(nat \<times> nat) list"
| RangeNotSatisfiable
| RangeMalformed string
| ConnectionLost nat

record http_response =
  status :: nat
  detail :: string
  body :: bytes

definition file_response ::
  "env \<Rightarrow> delivery \<Rightarrow> response \<Rightarrow> world \<Rightarrow> http_response \<times> world" where
  "file_response env rng r w =
     (case r of
        FileResponse p media_type name temp_dir \<Rightarrow>
          (let content = (case fs w p of Some (File b) \<Rightarrow> b | Some Dir \<Rightarrow> [] | None \<Rightarrow> []) in
           case rng of
             NoRange \<Rightarrow>
               (\<lparr>status = 200, detail = [], body = content\<rparr>,
                snd (cleanup_directory env temp_dir w))
           | RangeSatisfiable ranges \<Rightarrow>
               (\<lparr>status = 206, detail = [],
                 body = concat (map (\<lambda>(start, stop). take (stop - start) (drop start content))
                                  ranges)\<rparr>,
                snd (cleanup_directory env temp_dir w))
           | RangeNotSatisfiable \<Rightarrow> (\<lparr>status = 416, detail = [], body = []\<rparr>, w)
           | RangeMalformed msg \<Rightarrow> (\<lparr>status = 400, detail = msg, body = []\<rparr>, w)
           | ConnectionLost n \<Rightarrow> (\<lparr>status = 200, detail = [], body = take n content\<rparr>, w)))"

definition post_convert ::
  "env \<Rightarrow> delivery \<Rightarrow> upload option \<Rightarrow> string option \<Rightarrow> world \<Rightarrow>
   http_response \<times> world" where
  "post_convert env rng pdf pdf_url w0 =
     (case convert_pdf env pdf pdf_url w0 of
        (Return r, w1) \<Rightarrow> file_response env rng r w1
      | (Raise (HTTPException c d), w1) \<Rightarrow> (\<lparr>status = c, detail = d, body = []\<rparr>, w1)
      | (Raise (Error msg), w1) \<Rightarrow>
          (\<lparr>status = 500, detail = ''Internal Server Error'', body = []\<rparr>, w1))"

subsection \<open>Sample environments\<close>

text \<open>An environment in which every capability works: the download delivers four
  bytes, the rasterizer gives three pages.\<close>

definition sample_env :: env where
  "sample_env =
     \<lparr>uuid4 = ''3f2a'',
      requests_get = (\<lambda>url. Reply 200 ''application/pdf'' [[37, 80, 68, 70]] None),
      open_fault = (\<lambda>p. None),
      convert_from_path = (\<lambda>p. Inr [[1], [2], [3]]),
      jpeg_bytes = (\<lambda>img. 255 # 216 # img),
      save_fault = (\<lambda>p. None),
      zip_open_fault = (\<lambda>p. None),
      zip_write_fault = (\<lambda>p. None),
      zip_bytes = (\<lambda>entries. 80 # 75 # concat (map snd entries)),
      rmtree_fault = (\<lambda>p. None),
      rmtree_deleted = (\<lambda>d p. False),
      makedirs_fault = (\<lambda>p. None),
      write_fault = (\<lambda>p. None)\<rparr>"

definition empty_world :: world where
  "empty_world = \<lparr>fs = Map.empty, trace = []\<rparr>"

text \<open>The same environment with a disk on which no page image can be saved.\<close>

definition disk_full_env :: env where
  "disk_full_env = sample_env\<lparr>save_fault := (\<lambda>p. Some ''No space left on device'')\<rparr>"

subsection \<open>Notions used to state the properties\<close>

text \<open>The entries that \<open>create_zip_file\<close> has added to the archive when the \<open>with\<close>
  block is left (none when the archive could not be opened).\<close>

definition archive_entries :: "env \<Rightarrow> path list \<Rightarrow> path \<Rightarrow> world \<Rightarrow> zip_entry list" where
  "archive_entries env image_paths zip_path w0 =
     (case zipfile_open env zip_path (emit (Log INFO) w0) of
        (Raise e, w2) \<Rightarrow> []
      | (Return u, w2) \<Rightarrow> fst (fst (zip_pages env image_paths 0 [] w2)))"

text \<open>The specification's "base filename with no directory component", which is
  \<open>os.path.basename\<close>: what follows the last separator.\<close>

definition base_filename :: "path \<Rightarrow> string" where
  "base_filename p = rev (takeWhile (\<lambda>c. c \<noteq> CHR ''/'') (rev p))"

text \<open>The directories whose removal has been attempted, oldest first: the
  arguments of the calls of \<open>shutil.rmtree\<close> recorded in the trace.\<close>

fun removed_dir :: "event \<Rightarrow> path list" where
  "removed_dir (Rmtree d) = [d]"
| "removed_dir (Log l) = []"
| "removed_dir (HttpGet url) = []"

definition removals :: "world \<Rightarrow> path list" where
  "removals w = concat (map removed_dir (trace w))"

text \<open>A world with one picture that is not a page image.\<close>

definition photo_world :: world where
  "photo_world = \<lparr>fs = [''photos/cover.png'' \<mapsto> File [7]], trace = []\<rparr>"

text \<open>A world in which the first and the third page image exist and the second
  has disappeared.\<close>

definition pages_world :: world where
  "pages_world =
     \<lparr>fs = [''d/page_001.jpg'' \<mapsto> File [1], ''d/page_003.jpg'' \<mapsto> File [3]], trace = []\<rparr>"

text \<open>A world with the workspace of session \<open>3f2a\<close>, holding a downloaded file,
  and a file outside of it.\<close>

definition workspace_world :: world where
  "workspace_world =
     \<lparr>fs = [''temp/3f2a'' \<mapsto> Dir, ''temp/3f2a/input.pdf'' \<mapsto> File [37],
            ''temp/keep.txt'' \<mapsto> File [1]],
      trace = []\<rparr>"

text \<open>The sample environment with a server that answers 200 with an empty body.\<close>

definition empty_body_env :: env where
  "empty_body_env =
     sample_env\<lparr>requests_get := (\<lambda>url. Reply 200 ''application/pdf'' [] None)\<rparr>"

text \<open>A world in which the workspace of session \<open>3f2a\<close> has just been created.\<close>

definition fresh_workspace_world :: world where
  "fresh_workspace_world = \<lparr>fs = [''temp/3f2a'' \<mapsto> Dir], trace = []\<rparr>"

text \<open>A second working environment: another session, another JPEG encoder, and a
  rasterizer that gives three pages with other pixels.\<close>

definition other_env :: env where
  "other_env =
     sample_env\<lparr>uuid4 := ''77b0'',
       convert_from_path := (\<lambda>p. Inr [[4], [5], [6]]),
       jpeg_bytes := (\<lambda>img. 255 # 216 # 0 # img)\<rparr>"

text \<open>The sample environment with a workspace that cannot be removed: the removal
  deletes the stored PDF and then fails.\<close>

definition busy_env :: env where
  "busy_env =
     sample_env\<lparr>rmtree_fault := (\<lambda>p. Some ''Device or resource busy''),
       rmtree_deleted := (\<lambda>d p. p = ''temp/3f2a/input.pdf'')\<rparr>"

text \<open>The sample environment with a file system on which no file can be opened
  for writing.\<close>

definition readonly_env :: env where
  "readonly_env = sample_env\<lparr>open_fault := (\<lambda>p. Some ''Read-only file system'')\<rparr>"

text \<open>A world with the workspace of session \<open>77b0\<close>, holding an uploaded file.\<close>

definition other_workspace_world :: world where
  "other_workspace_world =
     \<lparr>fs = [''temp/77b0'' \<mapsto> Dir, ''temp/77b0/input.pdf'' \<mapsto> File [37, 80]], trace = []\<rparr>"

section \<open>Properties\<close>

subsection \<open>Page names and the rasterizer adapter\<close>

lemma page_name_not_abs: "\<not> startswith (page_name i) ''/''"
  by (simp add: page_name_def startswith_def)

lemma fst_save_pages_ok:
  "\<forall>k<length imgs. save_fault env (path_join d (page_name (i + k))) = None \<Longrightarrow>
   fst (save_pages env d imgs i acc w) =
     Return (acc @ map (\<lambda>k. path_join d (page_name k)) [i..<i + length imgs])"
proof (induction imgs arbitrary: i acc w)
  case Nil
  then show ?case by simp
next
  case (Cons img imgs)
  have h0: "save_fault env (path_join d (page_name i)) = None"
    using Cons.prems by force
  have hs: "\<forall>k<length imgs. save_fault env (path_join d (page_name (Suc i + k))) = None"
    using Cons.prems by force
  have eq: "[i..<Suc (i + length imgs)] = i # [Suc i..<Suc (i + length imgs)]"
    using upt_rec [of i "Suc (i + length imgs)"] by simp
  show ?case
    using Cons.IH [OF hs] h0 by (simp add: image_save_def Let_def eq del: upt_Suc)
qed

lemma fst_save_pages_fail:
  "k < length imgs \<Longrightarrow> save_fault env (path_join d (page_name (i + k))) \<noteq> None \<Longrightarrow>
   \<exists>e. fst (save_pages env d imgs i acc w) = Raise e"
proof (induction imgs arbitrary: i acc w k)
  case Nil
  then show ?case by simp
next
  case (Cons img imgs)
  show ?case
  proof (cases "save_fault env (path_join d (page_name i))")
    case (Some e)
    then show ?thesis by (simp add: image_save_def)
  next
    case None
    with Cons.prems obtain k' where k: "k = Suc k'" by (cases k) auto
    from Cons.prems k have "k' < length imgs"
      and "save_fault env (path_join d (page_name (Suc i + k'))) \<noteq> None" by auto
    from Cons.IH [OF this] None show ?thesis by (simp add: image_save_def Let_def)
  qed
qed

lemma page_paths_from_one:
  "map (\<lambda>i. path_join d (page_name i)) [0..<n] =
   map (\<lambda>seq. path_join d (''page_'' @ format_03d seq @ ''.jpg'')) [1..<Suc n]"
proof -
  have "map (\<lambda>seq. path_join d (''page_'' @ format_03d seq @ ''.jpg'')) (map Suc [0..<n]) =
        map (\<lambda>i. path_join d (page_name i)) [0..<n]"
    by (simp add: page_name_def)
  then show ?thesis by (simp only: map_Suc_upt One_nat_def)
qed

lemma convert_never_raises:
  "\<exists>paths. fst (convert_pdf_to_images env pdf_path output_dir w) = Return paths"
  by (simp add: convert_pdf_to_images_def split: prod.split outcome.split)

text \<open>
  Claim C1, as the code has it. \<open>convert_pdf_to_images\<close> never raises. When the
  rasterizer yields the pages \<open>images\<close> and every page is saved without error, the
  result is the list of the paths \<open>output_dir/page_{seq:03d}.jpg\<close> for
  \<open>seq = 1, ..., length images\<close>, in page order. When the rasterizer raises, yields
  no page, or the saving of some page raises, the result is the empty list.
\<close>

theorem convert_pdf_to_images_pages:
  "(\<exists>paths. fst (convert_pdf_to_images env pdf_path output_dir w) = Return paths) \<and>
   (\<forall>images. convert_from_path env pdf_path = Inr images \<and>
       (\<forall>i<length images. save_fault env (path_join output_dir (page_name i)) = None) \<longrightarrow>
       fst (convert_pdf_to_images env pdf_path output_dir w) =
         Return (map (\<lambda>seq. path_join output_dir (''page_'' @ format_03d seq @ ''.jpg''))
                   [1..<Suc (length images)])) \<and>
   ((\<exists>msg. convert_from_path env pdf_path = Inl msg) \<or>
    convert_from_path env pdf_path = Inr [] \<or>
    (\<exists>images i. convert_from_path env pdf_path = Inr images \<and> i < length images \<and>
       save_fault env (path_join output_dir (page_name i)) \<noteq> None) \<longrightarrow>
    fst (convert_pdf_to_images env pdf_path output_dir w) = Return [])"
proof (intro conjI allI impI)
  show "\<exists>paths. fst (convert_pdf_to_images env pdf_path output_dir w) = Return paths"
    by (rule convert_never_raises)
next
  fix images
  assume a: "convert_from_path env pdf_path = Inr images \<and>
    (\<forall>i<length images. save_fault env (path_join output_dir (page_name i)) = None)"
  then have "\<forall>k<length images. save_fault env (path_join output_dir (page_name (0 + k))) = None"
    by simp
  from fst_save_pages_ok [OF this, of "[]" "emit (Log INFO) w"]
  have "fst (save_pages env output_dir images 0 [] (emit (Log INFO) w)) =
        Return (map (\<lambda>k. path_join output_dir (page_name k)) [0..<length images])"
    by simp
  then obtain w2 where "save_pages env output_dir images 0 [] (emit (Log INFO) w) =
        (Return (map (\<lambda>k. path_join output_dir (page_name k)) [0..<length images]), w2)"
    by (metis prod.collapse)
  with a have "fst (convert_pdf_to_images env pdf_path output_dir w) =
        Return (map (\<lambda>k. path_join output_dir (page_name k)) [0..<length images])"
    by (simp add: convert_pdf_to_images_def convert_try_def Let_def split: prod.split outcome.split)
  then show "fst (convert_pdf_to_images env pdf_path output_dir w) =
         Return (map (\<lambda>seq. path_join output_dir (''page_'' @ format_03d seq @ ''.jpg''))
                   [1..<Suc (length images)])"
    by (simp only: page_paths_from_one)
next
  assume "(\<exists>msg. convert_from_path env pdf_path = Inl msg) \<or>
    convert_from_path env pdf_path = Inr [] \<or>
    (\<exists>images i. convert_from_path env pdf_path = Inr images \<and> i < length images \<and>
       save_fault env (path_join output_dir (page_name i)) \<noteq> None)"
  then consider (thrown) msg where "convert_from_path env pdf_path = Inl msg"
    | (nopages) "convert_from_path env pdf_path = Inr []"
    | (unsaved) images i where "convert_from_path env pdf_path = Inr images" "i < length images"
        "save_fault env (path_join output_dir (page_name i)) \<noteq> None"
    by blast
  then show "fst (convert_pdf_to_images env pdf_path output_dir w) = Return []"
  proof cases
    case thrown
    then show ?thesis
      by (simp add: convert_pdf_to_images_def convert_try_def Let_def)
  next
    case nopages
    then show ?thesis
      by (simp add: convert_pdf_to_images_def convert_try_def Let_def)
  next
    case unsaved
    from unsaved(2,3) have "save_fault env (path_join output_dir (page_name (0 + i))) \<noteq> None"
      by simp
    from fst_save_pages_fail [OF unsaved(2) this, of "[]" "emit (Log INFO) w"]
    obtain e w2 where "save_pages env output_dir images 0 [] (emit (Log INFO) w) = (Raise e, w2)"
      by (metis prod.collapse)
    with unsaved(1) show ?thesis
      by (simp add: convert_pdf_to_images_def convert_try_def Let_def split: prod.split outcome.split)
  qed
qed

theorem convert_pdf_to_images_pages_witness:
  "fst (convert_pdf_to_images sample_env ''in.pdf'' ''temp/3f2a'' empty_world) =
     Return [''temp/3f2a/page_001.jpg'', ''temp/3f2a/page_002.jpg'', ''temp/3f2a/page_003.jpg''] \<and>
   fst (convert_pdf_to_images disk_full_env ''in.pdf'' ''temp/3f2a'' empty_world) = Return []"
proof -
  have f: "format_03d (Suc 0) = ''001''" "format_03d (Suc (Suc 0)) = ''002''"
    "format_03d (Suc (Suc (Suc 0))) = ''003''"
    by code_simp+
  have u: "[1..<Suc 3] = [1, 2, 3]"
    by code_simp
  have a: "fst (convert_pdf_to_images sample_env ''in.pdf'' ''temp/3f2a'' empty_world) =
     Return [''temp/3f2a/page_001.jpg'', ''temp/3f2a/page_002.jpg'', ''temp/3f2a/page_003.jpg'']"
    using convert_pdf_to_images_pages [of sample_env "''in.pdf''" "''temp/3f2a''" empty_world]
    by (simp add: sample_env_def u f path_join_def startswith_def endswith_def)
  have b: "fst (convert_pdf_to_images disk_full_env ''in.pdf'' ''temp/3f2a'' empty_world) = Return []"
    using convert_pdf_to_images_pages [of disk_full_env "''in.pdf''" "''temp/3f2a''" empty_world]
    by (auto simp add: sample_env_def disk_full_env_def)
  from a b show ?thesis by simp
qed

text \<open>
  The claim as stated promises the page list for every PDF that rasterizes to at
  least one page. Here the rasterizer yields three pages and the disk is full: the
  \<open>except\<close> clause turns the failing \<open>image.save\<close> into the empty list.
\<close>

theorem convert_pdf_to_images_counterexample:
  "convert_from_path disk_full_env ''in.pdf'' = Inr [[1], [2], [3]] \<and>
   fst (convert_pdf_to_images disk_full_env ''in.pdf'' ''temp/3f2a'' empty_world) \<noteq>
     Return [''temp/3f2a/page_001.jpg'', ''temp/3f2a/page_002.jpg'', ''temp/3f2a/page_003.jpg'']"
  by (simp add: disk_full_env_def sample_env_def convert_pdf_to_images_def convert_try_def
        image_save_def Let_def)

subsection \<open>The world after an event or a write\<close>

lemma fs_emit [simp]: "fs (emit ev w) = fs w"
  by (simp add: emit_def)

lemma trace_emit [simp]: "trace (emit ev w) = trace w @ [ev]"
  by (simp add: emit_def)

lemma fs_put [simp]: "fs (put p n w) = (fs w)(p \<mapsto> n)"
  by (simp add: put_def)

lemma trace_put [simp]: "trace (put p n w) = trace w"
  by (simp add: put_def)

lemma exists_emit [simp]: "os_path_exists (emit ev w) p = os_path_exists w p"
  by (simp add: os_path_exists_def)

subsection \<open>The archive builder\<close>

lemma zipf_write_emit [simp]: "zipf_write env p a (emit ev w) = zipf_write env p a w"
  by (simp add: zipf_write_def split: option.split)

lemma fs_zip_pages: "fs (snd (zip_pages env ps i es w)) = fs w"
  by (induction ps arbitrary: i es w) (auto simp: Let_def split: outcome.split)

lemma zip_pages_names:
  "snd (fst (zip_pages env ps i es w)) = None \<Longrightarrow> \<forall>p\<in>set ps. fs w p \<noteq> Some Dir \<Longrightarrow>
   map fst (fst (fst (zip_pages env ps i es w))) =
     map fst es @ map (\<lambda>(k, p). page_name k) (filter (\<lambda>(k, p). fs w p \<noteq> None) (enumerate i ps))"
proof (induction ps arbitrary: i es w)
  case Nil
  then show ?case by simp
next
  case (Cons p ps)
  show ?case
  proof (cases "os_path_exists w p")
    case False
    with Cons.prems Cons.IH [of "Suc i" es w] show ?thesis
      by (simp add: os_path_exists_def)
  next
    case True
    with Cons.prems obtain b where b: "fs w p = Some (File b)"
      by (cases "fs w p") (auto simp: os_path_exists_def split: node.splits intro: node.exhaust)
    show ?thesis
    proof (cases "zip_write_fault env p")
      case (Some msg)
      with True b Cons.prems show ?thesis by (simp add: zipf_write_def)
    next
      case None
      with True b Cons.prems
        Cons.IH [of "Suc i" "es @ [(page_name i, b)]" "emit (Log INFO) w"]
      show ?thesis by (simp add: zipf_write_def os_path_exists_def)
    qed
  qed
qed

lemma zip_pages_no_fault:
  "\<forall>p\<in>set ps. zip_write_fault env p = None \<Longrightarrow> snd (fst (zip_pages env ps i es w)) = None"
proof (induction ps arbitrary: i es w)
  case Nil
  then show ?case by simp
next
  case (Cons p ps)
  then show ?case
    by (cases "fs w p")
       (auto simp: os_path_exists_def zipf_write_def Let_def split: node.splits)
qed


lemma zip_pages_entries:
  "\<forall>p\<in>set ps. fs w p \<noteq> None \<longrightarrow> zip_write_fault env p = None \<Longrightarrow>
   fst (zip_pages env ps i es w) =
     (es @ concat (map (\<lambda>(k, p). case fs w p of
                          None \<Rightarrow> []
                        | Some (File b) \<Rightarrow> [(page_name k, b)]
                        | Some Dir \<Rightarrow> [(page_name k @ ''/'', [])]) (enumerate i ps)),
      None)"
proof (induction ps arbitrary: i es w)
  case Nil
  then show ?case by simp
next
  case (Cons p ps)
  show ?case
  proof (cases "fs w p")
    case None
    with Cons.prems Cons.IH [of w "Suc i" es] show ?thesis
      by (simp add: os_path_exists_def)
  next
    case (Some n)
    with Cons.prems have nf: "zip_write_fault env p = None" by simp
    from Cons.prems have rest: "\<forall>q\<in>set ps. fs (emit (Log INFO) w) q \<noteq> None \<longrightarrow>
        zip_write_fault env q = None"
      by simp
    show ?thesis
    proof (cases n)
      case (File b)
      with Some nf Cons.IH [OF rest, of "Suc i" "es @ [(page_name i, b)]"] show ?thesis
        by (simp add: os_path_exists_def zipf_write_def)
    next
      case Dir
      with Some nf Cons.IH [OF rest, of "Suc i" "es @ [(page_name i @ ''/'', [])]"] show ?thesis
        by (simp add: os_path_exists_def zipf_write_def)
    qed
  qed
qed

lemma zip_pages_fault:
  "p \<in> set ps \<Longrightarrow> fs w p \<noteq> None \<Longrightarrow> zip_write_fault env p \<noteq> None \<Longrightarrow>
   snd (fst (zip_pages env ps i es w)) \<noteq> None"
proof (induction ps arbitrary: i es w)
  case Nil
  then show ?case by simp
next
  case (Cons q qs)
  show ?case
  proof (cases "os_path_exists w q \<and> zip_write_fault env q \<noteq> None")
    case True
    then show ?thesis by (auto simp: zipf_write_def)
  next
    case False
    with Cons.prems have in_rest: "p \<in> set qs"
      by (auto simp: os_path_exists_def)
    show ?thesis
    proof (cases "os_path_exists w q")
      case False
      with Cons.IH [OF in_rest Cons.prems(2,3), of "Suc i" es] show ?thesis by simp
    next
      case True
      with \<open>\<not> (os_path_exists w q \<and> zip_write_fault env q \<noteq> None)\<close>
      have nf: "zip_write_fault env q = None" by simp
      from True obtain n where n: "fs w q = Some n"
        by (auto simp: os_path_exists_def)
      have e: "fs (emit (Log INFO) w) p \<noteq> None" using Cons.prems(2) by simp
      show ?thesis
      proof (cases n)
        case (File b)
        with n nf True Cons.IH [OF in_rest e Cons.prems(3), of "Suc i" "es @ [(page_name i, b)]"]
        show ?thesis by (simp add: zipf_write_def)
      next
        case Dir
        with n nf True
          Cons.IH [OF in_rest e Cons.prems(3), of "Suc i" "es @ [(page_name i @ ''/'', [])]"]
        show ?thesis by (simp add: zipf_write_def)
      qed
    qed
  qed
qed

lemma create_zip_never_raises:
  "\<exists>b. fst (create_zip_file env image_paths zip_path w) = Return b"
  by (auto simp add: create_zip_file_def split: prod.split outcome.split)

lemma str_nat_digits: "set (str_nat n) \<subseteq> set ''0123456789''"
proof (induction n rule: str_nat.induct)
  case (1 n)
  have d: "\<And>k. k < 10 \<Longrightarrow> ''0123456789'' ! k \<in> set ''0123456789''"
    by (rule nth_mem) simp
  show ?case
  proof (cases "n < 10")
    case True
    with d [of n] show ?thesis by (subst str_nat.simps) simp
  next
    case False
    have "n mod 10 < 10" by simp
    from d [OF this] 1 False show ?thesis by (subst str_nat.simps) simp
  qed
qed

lemma page_name_no_sep: "CHR ''/'' \<notin> set (page_name i)"
  using str_nat_digits [of "i + 1"] by (auto simp: page_name_def format_03d_def)

lemma path_join_prefix:
  "\<not> startswith b ''/'' \<Longrightarrow> path_join a b = path_join a [] @ b"
  by (auto simp: path_join_def startswith_def)

lemma path_join_empty_cases: "path_join a [] = [] \<or> last (path_join a []) = CHR ''/''"
  by (auto simp: path_join_def startswith_def endswith_def)
    (metis append_butlast_last_id append_eq_conv_conj diff_Suc_1 last_snoc length_append_singleton length_butlast list.size(3) One_nat_def)

lemma base_filename_append:
  "CHR ''/'' \<notin> set b \<Longrightarrow> a = [] \<or> last a = CHR ''/'' \<Longrightarrow> base_filename (a @ b) = b"
proof -
  assume b: "CHR ''/'' \<notin> set b" and a: "a = [] \<or> last a = CHR ''/''"
  have t: "takeWhile (\<lambda>c. c \<noteq> CHR ''/'') (rev b @ rev a) = rev b"
  proof (cases "a = []")
    case True
    with b show ?thesis by (auto simp add: takeWhile_eq_all_conv)
  next
    case False
    with a obtain a' where a': "a = a' @ [CHR ''/'']"
      by (metis append_butlast_last_id)
    have all: "takeWhile (\<lambda>c. c \<noteq> CHR ''/'') (rev b) = rev b"
      using b by (auto simp add: takeWhile_eq_all_conv)
    have "takeWhile (\<lambda>c. c \<noteq> CHR ''/'') (rev b @ (CHR ''/'' # rev a')) =
          takeWhile (\<lambda>c. c \<noteq> CHR ''/'') (rev b)"
      by (rule takeWhile_tail) simp
    with all a' show ?thesis by simp
  qed
  show ?thesis by (simp add: base_filename_def t)
qed

lemma base_filename_page: "base_filename (path_join d (page_name i)) = page_name i"
proof -
  have "path_join d (page_name i) = path_join d [] @ page_name i"
    by (rule path_join_prefix) (rule page_name_not_abs)
  moreover have "base_filename (path_join d [] @ page_name i) = page_name i"
    by (rule base_filename_append) (rule page_name_no_sep, rule path_join_empty_cases)
  ultimately show ?thesis by simp
qed


lemma zipfile_open_cases:
  "zipfile_open env zp w = (Return (), put zp (File []) w) \<and> fs w zp \<noteq> Some Dir \<and>
     zip_open_fault env zp = None \<or>
   (\<exists>e. zipfile_open env zp w = (Raise e, w)) \<and>
     (fs w zp = Some Dir \<or> zip_open_fault env zp \<noteq> None)"
  by (auto simp: zipfile_open_def split: option.split)

lemma create_zip_open_failed:
  "zipfile_open env zp (emit (Log INFO) w) = (Raise e, w2) \<Longrightarrow>
   create_zip_file env ps zp w = (Return False, emit (Log ERROR) w2)"
  by (simp add: create_zip_file_def create_zip_try_def Let_def)

lemma create_zip_opened:
  assumes "zipfile_open env zp (emit (Log INFO) w) = (Return (), w2)"
    and "zip_pages env ps 0 [] w2 = ((es, fault), w3)"
  shows "fst (create_zip_file env ps zp w) = Return (fault = None \<and> zip_bytes env es \<noteq> [])"
    and "fs (snd (create_zip_file env ps zp w)) zp = Some (File (zip_bytes env es))"
    and "archive_entries env ps zp w = es"
  using assms
  by (auto simp: create_zip_file_def create_zip_try_def Let_def zipfile_close_def
      os_path_exists_def os_path_getsize_def archive_entries_def split: option.split)

text \<open>
  Claim C2, as the code has it. \<open>create_zip_file\<close> never raises. When the archive
  can be opened, the file at \<open>zip_path\<close> holds afterwards the entries that were added.
  When moreover the archive is not one of the listed paths and no listed path that
  exists is refused by the archive writer, the entries are, in input order, one for
  each listed path that exists, the path at position \<open>i\<close> (counted from 0) giving
  the entry \<open>page_{i+1:03d}.jpg\<close> with the content of the file (a directory gives
  the empty entry \<open>page_{i+1:03d}.jpg/\<close>), and listed paths that do not exist give
  none; the result is then \<open>True\<close> exactly when the archive file is not empty. When
  the archive cannot be opened or an existing listed path is refused, the result is
  \<open>False\<close>, and so it is whenever the archive file is missing or empty afterwards.
  The entry name is the base filename of the path for the paths that
  \<open>convert_pdf_to_images\<close> returns.
\<close>

theorem create_zip_file_entries:
  "(\<exists>b. fst (create_zip_file env image_paths zip_path w) = Return b) \<and>
   (fs w zip_path \<noteq> Some Dir \<and> zip_open_fault env zip_path = None \<longrightarrow>
      fs (snd (create_zip_file env image_paths zip_path w)) zip_path =
        Some (File (zip_bytes env (archive_entries env image_paths zip_path w)))) \<and>
   (fs w zip_path \<noteq> Some Dir \<and> zip_open_fault env zip_path = None \<and>
    zip_path \<notin> set image_paths \<and>
    (\<forall>p\<in>set image_paths. fs w p \<noteq> None \<longrightarrow> zip_write_fault env p = None) \<longrightarrow>
      archive_entries env image_paths zip_path w =
        concat (map (\<lambda>(i, p). case fs w p of
                       None \<Rightarrow> []
                     | Some (File b) \<Rightarrow> [(''page_'' @ format_03d (i + 1) @ ''.jpg'', b)]
                     | Some Dir \<Rightarrow> [(''page_'' @ format_03d (i + 1) @ ''.jpg/'', [])])
                  (enumerate 0 image_paths)) \<and>
      fst (create_zip_file env image_paths zip_path w) =
        Return (zip_bytes env (archive_entries env image_paths zip_path w) \<noteq> [])) \<and>
   (fs w zip_path = Some Dir \<or> zip_open_fault env zip_path \<noteq> None \<or>
    (\<exists>p\<in>set image_paths. fs w p \<noteq> None \<and> zip_write_fault env p \<noteq> None) \<longrightarrow>
      fst (create_zip_file env image_paths zip_path w) = Return False) \<and>
   (fs (snd (create_zip_file env image_paths zip_path w)) zip_path = None \<or>
    fs (snd (create_zip_file env image_paths zip_path w)) zip_path = Some (File []) \<longrightarrow>
      fst (create_zip_file env image_paths zip_path w) = Return False) \<and>
   (\<forall>d i. base_filename (path_join d (page_name i)) = page_name i)"
proof -
  let ?w1 = "emit (Log INFO) w"
  let ?r = "create_zip_file env image_paths zip_path w"
  let ?at = "(fs w)(zip_path \<mapsto> File [])"
  let ?entry = "\<lambda>f. \<lambda>(i::nat, p::path). case f p of
                       None \<Rightarrow> []
                     | Some (File b) \<Rightarrow> [(''page_'' @ format_03d (i + 1) @ ''.jpg'', b)]
                     | Some Dir \<Rightarrow> [(''page_'' @ format_03d (i + 1) @ ''.jpg/'', [])]"
  let ?spec = "concat (map (?entry (fs w)) (enumerate 0 image_paths))"
  have never: "\<exists>b. fst ?r = Return b"
    by (rule create_zip_never_raises)
  have base: "\<forall>d i. base_filename (path_join d (page_name i)) = page_name i"
    by (simp add: base_filename_page)
  from zipfile_open_cases [of env zip_path ?w1]
  consider (opened) "zipfile_open env zip_path ?w1 = (Return (), put zip_path (File []) ?w1)"
      "fs w zip_path \<noteq> Some Dir" "zip_open_fault env zip_path = None"
    | (failed) e where "zipfile_open env zip_path ?w1 = (Raise e, ?w1)"
      "fs w zip_path = Some Dir \<or> zip_open_fault env zip_path \<noteq> None"
    by auto
  then have rest:
    "(fs w zip_path \<noteq> Some Dir \<and> zip_open_fault env zip_path = None \<longrightarrow>
        fs (snd ?r) zip_path =
          Some (File (zip_bytes env (archive_entries env image_paths zip_path w)))) \<and>
     (fs w zip_path \<noteq> Some Dir \<and> zip_open_fault env zip_path = None \<and>
      zip_path \<notin> set image_paths \<and>
      (\<forall>p\<in>set image_paths. fs w p \<noteq> None \<longrightarrow> zip_write_fault env p = None) \<longrightarrow>
        archive_entries env image_paths zip_path w = ?spec \<and>
        fst ?r = Return (zip_bytes env (archive_entries env image_paths zip_path w) \<noteq> [])) \<and>
     (fs w zip_path = Some Dir \<or> zip_open_fault env zip_path \<noteq> None \<or>
      (\<exists>p\<in>set image_paths. fs w p \<noteq> None \<and> zip_write_fault env p \<noteq> None) \<longrightarrow>
        fst ?r = Return False) \<and>
     (fs (snd ?r) zip_path = None \<or> fs (snd ?r) zip_path = Some (File []) \<longrightarrow>
        fst ?r = Return False)"
  proof cases
    case failed
    from create_zip_open_failed [OF failed(1), of image_paths] failed(2)
    show ?thesis by auto
  next
    case opened
    let ?w2 = "put zip_path (File []) ?w1"
    obtain es fault w3 where zp: "zip_pages env image_paths 0 [] ?w2 = ((es, fault), w3)"
      by (metis prod.collapse)
    note co = create_zip_opened [OF opened(1) zp]
    have at: "fs ?w2 = ?at"
      by simp
    have n: "(\<lambda>(k::nat, p::path). case ?at p of
                 None \<Rightarrow> []
               | Some (File b) \<Rightarrow> [(page_name k, b)]
               | Some Dir \<Rightarrow> [(page_name k @ ''/'', [])]) = ?entry ?at"
      by (auto simp: page_name_def fun_eq_iff split: option.split node.split)
    have sound: "es = ?spec \<and> fault = None"
      if na: "zip_path \<notin> set image_paths"
        and nf: "\<forall>p\<in>set image_paths. fs w p \<noteq> None \<longrightarrow> zip_write_fault env p = None"
    proof -
      from na nf
      have "\<forall>p\<in>set image_paths. fs ?w2 p \<noteq> None \<longrightarrow> zip_write_fault env p = None"
        by auto
      from zip_pages_entries [OF this, of 0 "[]"] zp
      have e: "es = concat (map (?entry ?at) (enumerate 0 image_paths))" and f: "fault = None"
        by (simp_all only: at n) simp_all
      have m: "map (?entry ?at) (enumerate 0 image_paths) =
            map (?entry (fs w)) (enumerate 0 image_paths)"
      proof (rule map_cong [OF refl])
        fix x assume "x \<in> set (enumerate 0 image_paths)"
        then have "snd x \<in> set image_paths"
          by (metis enumerate_eq_zip set_zip_rightD prod.collapse)
        with na have "snd x \<noteq> zip_path" by blast
        then show "?entry ?at x = ?entry (fs w) x"
          by (cases x) simp
      qed
      from e have "es = ?spec" by (simp only: m)
      with f show ?thesis by blast
    qed
    have refused: "fault \<noteq> None"
      if "\<exists>p\<in>set image_paths. fs w p \<noteq> None \<and> zip_write_fault env p \<noteq> None"
    proof -
      from that obtain p where p: "p \<in> set image_paths" "fs w p \<noteq> None"
        "zip_write_fault env p \<noteq> None"
        by blast
      from p(2) have "fs ?w2 p \<noteq> None" by simp
      from zip_pages_fault [OF p(1) this p(3), of 0 "[]"] zp show ?thesis by simp
    qed
    show ?thesis
      using co sound refused opened(2,3) by auto
  qed
  from never rest base show ?thesis by blast
qed

theorem create_zip_file_entries_witness:
  "fst (create_zip_file sample_env [''d/page_001.jpg'', ''d/page_002.jpg'', ''d/page_003.jpg'']
          ''d/images.zip'' pages_world) = Return True \<and>
   archive_entries sample_env
          [''d/page_001.jpg'', ''d/page_002.jpg'', ''d/page_003.jpg''] ''d/images.zip'' pages_world =
     [(''page_001.jpg'', [1]), (''page_003.jpg'', [3])] \<and>
   fs (snd (create_zip_file sample_env [''d/page_001.jpg'', ''d/page_002.jpg'', ''d/page_003.jpg'']
          ''d/images.zip'' pages_world)) ''d/images.zip'' =
     Some (File (zip_bytes sample_env [(''page_001.jpg'', [1]), (''page_003.jpg'', [3])]))"
proof -
  let ?ps = "[''d/page_001.jpg'', ''d/page_002.jpg'', ''d/page_003.jpg'']"
  let ?r = "create_zip_file sample_env ?ps ''d/images.zip'' pages_world"
  let ?es = "archive_entries sample_env ?ps ''d/images.zip'' pages_world"
  have f: "format_03d (Suc 0) = ''001''" "format_03d (Suc (Suc (Suc 0))) = ''003''"
    by code_simp+
  note t = create_zip_file_entries [of sample_env ?ps "''d/images.zip''" pages_world]
  have h1: "fs pages_world ''d/images.zip'' \<noteq> Some Dir"
    by (simp add: pages_world_def)
  have h2: "zip_open_fault sample_env ''d/images.zip'' = None"
    by (simp add: sample_env_def)
  have h3: "\<forall>p\<in>set ?ps. fs pages_world p \<noteq> None \<longrightarrow> zip_write_fault sample_env p = None"
    by (simp add: sample_env_def)
  have h4: "''d/images.zip'' \<notin> set ?ps"
    by simp
  from t h1 h2 h3 h4 have e: "?es =
     concat (map (\<lambda>(i, p). case fs pages_world p of
                       None \<Rightarrow> []
                     | Some (File b) \<Rightarrow> [(''page_'' @ format_03d (i + 1) @ ''.jpg'', b)]
                     | Some Dir \<Rightarrow> [(''page_'' @ format_03d (i + 1) @ ''.jpg/'', [])])
                  (enumerate 0 ?ps))"
    and ok: "fst ?r = Return (zip_bytes sample_env ?es \<noteq> [])"
    and fl: "fs (snd ?r) ''d/images.zip'' = Some (File (zip_bytes sample_env ?es))"
    by blast+
  have v: "concat (map (\<lambda>(i, p). case fs pages_world p of
                       None \<Rightarrow> []
                     | Some (File b) \<Rightarrow> [(''page_'' @ format_03d (i + 1) @ ''.jpg'', b)]
                     | Some Dir \<Rightarrow> [(''page_'' @ format_03d (i + 1) @ ''.jpg/'', [])])
                  (enumerate 0 ?ps)) = [(''page_001.jpg'', [1]), (''page_003.jpg'', [3])]"
    by (simp add: pages_world_def f)
  have n: "zip_bytes sample_env [(''page_001.jpg'', [1]), (''page_003.jpg'', [3])] \<noteq> []"
    by (simp add: sample_env_def)
  from e v have es: "?es = [(''page_001.jpg'', [1]), (''page_003.jpg'', [3])]"
    by simp
  from ok fl es n show ?thesis by simp
qed

text \<open>
  The claim as stated names each entry by the base filename of its path, for every
  list of paths. The entry name comes from the position in the list instead: the
  existing file \<open>photos/cover.png\<close> is archived as \<open>page_001.jpg\<close>.
\<close>

theorem create_zip_file_counterexample:
  "fst (create_zip_file sample_env [''photos/cover.png''] ''out.zip'' photo_world) = Return True \<and>
   map fst (archive_entries sample_env [''photos/cover.png''] ''out.zip'' photo_world) =
     [''page_001.jpg''] \<and>
   base_filename ''photos/cover.png'' = ''cover.png''"
proof -
  have f: "page_name 0 = ''page_001.jpg''"
    by code_simp
  have o: "zipfile_open sample_env ''out.zip'' (emit (Log INFO) photo_world) =
           (Return (), put ''out.zip'' (File []) (emit (Log INFO) photo_world))"
    by (simp add: zipfile_open_def sample_env_def photo_world_def)
  have z: "zip_pages sample_env [''photos/cover.png''] 0 []
             (put ''out.zip'' (File []) (emit (Log INFO) photo_world)) =
           (([(''page_001.jpg'', [7])], None),
            emit (Log INFO) (put ''out.zip'' (File []) (emit (Log INFO) photo_world)))"
    by (simp add: zipf_write_def os_path_exists_def sample_env_def photo_world_def f)
  have b: "base_filename ''photos/cover.png'' = ''cover.png''"
    by (simp add: base_filename_def)
  have n: "zip_bytes sample_env [(''page_001.jpg'', [7])] \<noteq> []"
    by (simp add: sample_env_def)
  from create_zip_opened [OF o z] b n show ?thesis by simp
qed

subsection \<open>Workspace removal\<close>

lemma cleanup_directory_returns: "fst (cleanup_directory env d w) = Return ()"
  by (simp add: cleanup_directory_def split: prod.split outcome.split)

lemma cleanup_directory_absent:
  "fs w d = None \<Longrightarrow> cleanup_directory env d w = (Return (), w)"
  by (simp add: cleanup_directory_def cleanup_try_def os_path_exists_def)

lemma cleanup_directory_removed:
  "fs w d = Some Dir \<Longrightarrow> rmtree_fault env d = None \<Longrightarrow>
   cleanup_directory env d w =
     (Return (), emit (Log INFO) ((emit (Rmtree d) w)\<lparr>fs := remove_tree d (fs w)\<rparr>))"
  by (simp add: cleanup_directory_def cleanup_try_def os_path_exists_def shutil_rmtree_def Let_def)

lemma cleanup_directory_partial:
  "fs w d = Some Dir \<Longrightarrow> rmtree_fault env d = Some msg \<Longrightarrow>
   cleanup_directory env d w =
     (Return (), emit (Log WARNING)
        ((emit (Rmtree d) w)\<lparr>fs := remove_some d (rmtree_deleted env d) (fs w)\<rparr>))"
  by (simp add: cleanup_directory_def cleanup_try_def os_path_exists_def shutil_rmtree_def Let_def)

lemma cleanup_directory_not_dir:
  "fs w d = Some (File b) \<Longrightarrow>
   cleanup_directory env d w = (Return (), emit (Log WARNING) (emit (Rmtree d) w))"
  by (simp add: cleanup_directory_def cleanup_try_def os_path_exists_def shutil_rmtree_def Let_def)

lemma cleanup_directory_failed:
  assumes "fs w d \<noteq> None" and "fs w d \<noteq> Some Dir \<or> rmtree_fault env d \<noteq> None"
  shows "fs (snd (cleanup_directory env d w)) d = fs w d \<and>
         (\<forall>p. fs (snd (cleanup_directory env d w)) p = fs w p \<or>
              inside d p \<and> p \<noteq> d \<and> fs (snd (cleanup_directory env d w)) p = None) \<and>
         trace (snd (cleanup_directory env d w)) = trace w @ [Rmtree d, Log WARNING]"
proof -
  from assms(1) obtain n where n: "fs w d = Some n" by blast
  show ?thesis
  proof (cases n)
    case (File b)
    with n cleanup_directory_not_dir [of w d b env] show ?thesis by simp
  next
    case Dir
    with n assms(2) obtain msg where "rmtree_fault env d = Some msg" by auto
    with n Dir cleanup_directory_partial [of w d env msg] show ?thesis
      by (simp add: remove_some_def)
  qed
qed

text \<open>
  Claim C7. \<open>cleanup_directory\<close> returns normally for every path, environment and
  world. When the path is a directory and the removal does not fail, the directory
  and every path below it are gone and every other path is as before. When the path
  does not exist, the world is unchanged. A removal that fails (the path is not a
  directory, or \<open>rmtree\<close> raises) is absorbed and logged as a warning: the path
  itself and every path outside of it are as before, and a path below it is either
  as before or deleted.
\<close>

theorem cleanup_directory_never_raises:
  "fst (cleanup_directory env directory w) = Return () \<and>
   (fs w directory = Some Dir \<and> rmtree_fault env directory = None \<longrightarrow>
      (\<forall>p. fs (snd (cleanup_directory env directory w)) p =
           (if inside directory p then None else fs w p))) \<and>
   (fs w directory = None \<longrightarrow> snd (cleanup_directory env directory w) = w) \<and>
   (fs w directory \<noteq> None \<and> (fs w directory \<noteq> Some Dir \<or> rmtree_fault env directory \<noteq> None) \<longrightarrow>
      fs (snd (cleanup_directory env directory w)) directory = fs w directory \<and>
      (\<forall>p. fs (snd (cleanup_directory env directory w)) p = fs w p \<or>
           inside directory p \<and> p \<noteq> directory \<and>
           fs (snd (cleanup_directory env directory w)) p = None) \<and>
      trace (snd (cleanup_directory env directory w)) =
        trace w @ [Rmtree directory, Log WARNING])"
proof (intro conjI impI)
  show "fst (cleanup_directory env directory w) = Return ()"
    by (rule cleanup_directory_returns)
next
  assume "fs w directory = Some Dir \<and> rmtree_fault env directory = None"
  then show "\<forall>p. fs (snd (cleanup_directory env directory w)) p =
           (if inside directory p then None else fs w p)"
    by (simp add: cleanup_directory_removed remove_tree_def)
next
  assume "fs w directory = None"
  then show "snd (cleanup_directory env directory w) = w"
    by (simp add: cleanup_directory_absent)
next
  assume a: "fs w directory \<noteq> None \<and>
    (fs w directory \<noteq> Some Dir \<or> rmtree_fault env directory \<noteq> None)"
  then have f: "fs (snd (cleanup_directory env directory w)) directory = fs w directory \<and>
      (\<forall>p. fs (snd (cleanup_directory env directory w)) p = fs w p \<or>
           inside directory p \<and> p \<noteq> directory \<and>
           fs (snd (cleanup_directory env directory w)) p = None) \<and>
      trace (snd (cleanup_directory env directory w)) = trace w @ [Rmtree directory, Log WARNING]"
    using cleanup_directory_failed [of w directory env] by blast
  from f show "fs (snd (cleanup_directory env directory w)) directory = fs w directory"
    by blast
  from f show "\<forall>p. fs (snd (cleanup_directory env directory w)) p = fs w p \<or>
           inside directory p \<and> p \<noteq> directory \<and>
           fs (snd (cleanup_directory env directory w)) p = None"
    by blast
  from f show "trace (snd (cleanup_directory env directory w)) =
        trace w @ [Rmtree directory, Log WARNING]"
    by blast
qed

theorem cleanup_directory_never_raises_witness:
  "fst (cleanup_directory sample_env ''temp/3f2a'' workspace_world) = Return () \<and>
   fs (snd (cleanup_directory sample_env ''temp/3f2a'' workspace_world)) ''temp/3f2a'' = None \<and>
   fs (snd (cleanup_directory sample_env ''temp/3f2a'' workspace_world)) ''temp/3f2a/input.pdf'' = None \<and>
   fs (snd (cleanup_directory sample_env ''temp/3f2a'' workspace_world)) ''temp/keep.txt'' =
     Some (File [1]) \<and>
   snd (cleanup_directory sample_env ''temp/3f2a'' empty_world) = empty_world \<and>
   fst (cleanup_directory busy_env ''temp/3f2a'' workspace_world) = Return () \<and>
   fs (snd (cleanup_directory busy_env ''temp/3f2a'' workspace_world)) ''temp/3f2a'' = Some Dir \<and>
   fs (snd (cleanup_directory busy_env ''temp/3f2a'' workspace_world)) ''temp/keep.txt'' =
     Some (File [1]) \<and>
   trace (snd (cleanup_directory busy_env ''temp/3f2a'' workspace_world)) =
     [Rmtree ''temp/3f2a'', Log WARNING]"
proof -
  note t = cleanup_directory_never_raises [of sample_env "''temp/3f2a''" workspace_world]
  have h: "fs workspace_world ''temp/3f2a'' = Some Dir \<and> rmtree_fault sample_env ''temp/3f2a'' = None"
    by (simp add: workspace_world_def sample_env_def)
  from t h have r: "\<forall>p. fs (snd (cleanup_directory sample_env ''temp/3f2a'' workspace_world)) p =
     (if inside ''temp/3f2a'' p then None else fs workspace_world p)"
    by blast
  have i: "inside ''temp/3f2a'' ''temp/3f2a''" "inside ''temp/3f2a'' ''temp/3f2a/input.pdf''"
    "\<not> inside ''temp/3f2a'' ''temp/keep.txt''"
    by (simp_all add: inside_def path_join_def startswith_def endswith_def)
  have k: "fs workspace_world ''temp/keep.txt'' = Some (File [1])"
    by (simp add: workspace_world_def)
  have e: "snd (cleanup_directory sample_env ''temp/3f2a'' empty_world) = empty_world"
    using cleanup_directory_never_raises [of sample_env "''temp/3f2a''" empty_world]
    by (simp add: empty_world_def)
  note u = cleanup_directory_never_raises [of busy_env "''temp/3f2a''" workspace_world]
  have g: "fs workspace_world ''temp/3f2a'' \<noteq> None \<and>
      (fs workspace_world ''temp/3f2a'' \<noteq> Some Dir \<or> rmtree_fault busy_env ''temp/3f2a'' \<noteq> None)"
    by (simp add: workspace_world_def busy_env_def sample_env_def)
  from u g have b: "fst (cleanup_directory busy_env ''temp/3f2a'' workspace_world) = Return ()"
    "fs (snd (cleanup_directory busy_env ''temp/3f2a'' workspace_world)) ''temp/3f2a'' =
       fs workspace_world ''temp/3f2a''"
    "\<forall>p. fs (snd (cleanup_directory busy_env ''temp/3f2a'' workspace_world)) p =
         fs workspace_world p \<or>
         inside ''temp/3f2a'' p \<and> p \<noteq> ''temp/3f2a'' \<and>
         fs (snd (cleanup_directory busy_env ''temp/3f2a'' workspace_world)) p = None"
    "trace (snd (cleanup_directory busy_env ''temp/3f2a'' workspace_world)) =
       trace workspace_world @ [Rmtree ''temp/3f2a'', Log WARNING]"
    by blast+
  from b(3) i(3) have o: "fs (snd (cleanup_directory busy_env ''temp/3f2a'' workspace_world))
      ''temp/keep.txt'' = fs workspace_world ''temp/keep.txt''"
    by blast
  have tw: "trace workspace_world = []" "fs workspace_world ''temp/3f2a'' = Some Dir"
    by (simp_all add: workspace_world_def)
  from t r i k e b(1,2,4) o tw show ?thesis by simp
qed

subsection \<open>The download\<close>

text \<open>When the request raises, the status is 4xx or 5xx, or the stream breaks, the
  \<open>except\<close> clause returns \<open>False\<close> and no file is left at \<open>output_path\<close>.\<close>

lemma download_error_handler:
  "download_try env url out w = (Raise e, w1) \<Longrightarrow> fs w1 out \<noteq> Some Dir \<Longrightarrow>
   fst (download_pdf_from_url env url out w) = Return False \<and>
   fs (snd (download_pdf_from_url env url out w)) out = None"
  by (cases "fs w1 out")
     (auto simp: download_pdf_from_url_def os_path_exists_def os_remove_def Let_def
        split: node.split)

lemma download_try_failures:
  assumes "fs w out \<noteq> Some Dir"
    and "(\<exists>msg. requests_get env url = ConnectionError msg) \<or>
         (\<exists>status ct chunks fault. requests_get env url = Reply status ct chunks fault \<and>
            (400 \<le> status \<and> status < 600 \<or> fault \<noteq> None))"
  shows "\<exists>e w1. download_try env url out w = (Raise e, w1) \<and> fs w1 out \<noteq> Some Dir"
  using assms
  by (auto simp: download_try_def Let_def raise_for_status_def open_wb_def write_chunks_def
      split: option.split)

lemma download_failure_removes_file:
  assumes "fs w out \<noteq> Some Dir"
    and "(\<exists>msg. requests_get env url = ConnectionError msg) \<or>
         (\<exists>status ct chunks fault. requests_get env url = Reply status ct chunks fault \<and>
            (400 \<le> status \<and> status < 600 \<or> fault \<noteq> None))"
  shows "fst (download_pdf_from_url env url out w) = Return False \<and>
         fs (snd (download_pdf_from_url env url out w)) out = None"
  using download_try_failures [OF assms] download_error_handler by blast

text \<open>
  Claim C4 asks that the file at \<open>output_path\<close> be removed in every failure case. The
  empty download is detected by the \<open>return False\<close> of line 52, which does not pass
  through the \<open>except\<close> clause: for a server that answers 200 with an empty body the
  function returns \<open>False\<close> and the empty file stays on disk.
\<close>

theorem download_empty_body_keeps_file:
  "fst (download_pdf_from_url empty_body_env ''http://host/doc.pdf'' ''temp/3f2a/input.pdf''
          fresh_workspace_world) = Return False \<and>
   fs (snd (download_pdf_from_url empty_body_env ''http://host/doc.pdf'' ''temp/3f2a/input.pdf''
          fresh_workspace_world)) ''temp/3f2a/input.pdf'' = Some (File [])"
proof -
  have t: "download_try empty_body_env ''http://host/doc.pdf'' ''temp/3f2a/input.pdf''
            fresh_workspace_world =
           (Return False,
            emit (Log ERROR) (put ''temp/3f2a/input.pdf'' (File [])
              (put ''temp/3f2a/input.pdf'' (File [])
                (emit (HttpGet ''http://host/doc.pdf'') (emit (Log INFO) fresh_workspace_world)))))"
    by (simp add: download_try_def empty_body_env_def sample_env_def fresh_workspace_world_def
        raise_for_status_def open_wb_def write_chunks_def os_path_getsize_def Let_def
        lower_def lower_char_def startswith_def)
  show ?thesis
    by (simp add: download_pdf_from_url_def t)
qed

subsection \<open>Validation of the two sources\<close>

lemma convert_pdf_neither:
  "\<not> truthy_file pdf \<Longrightarrow> \<not> truthy_str pdf_url \<Longrightarrow>
   post_convert env rng pdf pdf_url w =
     (\<lparr>status = 422, detail = ''Debe proporcionar 'pdf' (archivo) o 'pdf_url' (URL)'',
       body = []\<rparr>, w)"
  by (simp add: post_convert_def convert_pdf_def)

lemma convert_pdf_both:
  "truthy_file pdf \<Longrightarrow> truthy_str pdf_url \<Longrightarrow>
   post_convert env rng pdf pdf_url w =
     (\<lparr>status = 422, detail = ''Proporcione solo 'pdf' o 'pdf_url', no ambos'',
       body = []\<rparr>, w)"
  by (simp add: post_convert_def convert_pdf_def)

text \<open>Past the validation the handler answers 200, 400 or 500: the functions it
  calls raise no \<open>HTTPException\<close> of their own.\<close>

lemma download_raises_error:
  "download_pdf_from_url env url out w = (Raise e, w') \<Longrightarrow> \<exists>msg. e = Error msg"
  by (auto simp: download_pdf_from_url_def os_remove_def Let_def
      split: prod.splits outcome.splits if_splits option.splits node.splits)

lemma open_wb_raises_error:
  "open_wb env p w = (Raise e, w') \<Longrightarrow> \<exists>msg. e = Error msg"
  by (auto simp: open_wb_def split: if_splits option.splits)

lemma file_write_raises_error:
  "file_write env p content r w = (Raise e, w') \<Longrightarrow> \<exists>msg. e = Error msg"
  by (auto simp: file_write_def split: option.splits)

lemma missing_or_empty_returns: "\<exists>b. missing_or_empty w p = Return b"
  by (cases "fs w p")
     (auto simp: missing_or_empty_def os_path_exists_def os_path_getsize_def split: node.split)

lemma convert_pdf_to_images_no_raise:
  "convert_pdf_to_images env p d w \<noteq> (Raise e, w')"
  by (auto simp: convert_pdf_to_images_def split: prod.split outcome.split)

lemma create_zip_file_no_raise:
  "create_zip_file env ps zp w \<noteq> (Raise e, w')"
  by (auto simp: create_zip_file_def split: prod.split outcome.split)

lemma resolve_source_status:
  "resolve_source env pdf pdf_url d w = (Raise (HTTPException c m), w') \<Longrightarrow> c = 400"
  by (auto simp: resolve_source_def resolve_url_def resolve_upload_def Let_def
      split: if_splits option.splits prod.splits outcome.splits sum.splits
      dest: download_raises_error open_wb_raises_error file_write_raises_error)

lemma render_and_respond_status:
  "render_and_respond env p d w = (Raise (HTTPException c m), w') \<Longrightarrow> c = 400 \<or> c = 500"
  using missing_or_empty_returns [of w p]
    missing_or_empty_returns [of w' "path_join d ''images.zip''"]
  by (auto simp: render_and_respond_def Let_def convert_pdf_to_images_no_raise
      create_zip_file_no_raise
      split: if_splits prod.splits outcome.splits bool.splits)

lemma convert_try_block_status:
  "convert_try_block env pdf pdf_url d w = (Raise (HTTPException c m), w') \<Longrightarrow>
   c = 400 \<or> c = 500"
  by (auto simp: convert_try_block_def split: prod.splits outcome.splits
      dest: resolve_source_status render_and_respond_status)

lemma cleanup_directory_pair: "\<exists>w'. cleanup_directory env d w = (Return (), w')"
  by (metis cleanup_directory_returns prod.collapse)

lemma convert_except_http:
  "fst (convert_except env d (HTTPException c m) w) = Raise (HTTPException c m)"
  using cleanup_directory_pair [of env d w] by (auto simp: convert_except_def)

lemma convert_except_error:
  "fst (convert_except env d (Error msg) w) =
     Raise (HTTPException 500 (''Error interno del servidor: '' @ msg))"
  using cleanup_directory_pair [of env d "emit (Log ERROR) w"] by (auto simp: convert_except_def)

lemma convert_except_status:
  "convert_except env d e w = (r, w') \<Longrightarrow>
   (\<exists>m. r = Raise (HTTPException 500 m)) \<or> (\<exists>c m. e = HTTPException c m \<and> r = Raise e)"
  using cleanup_directory_returns [of env d w] cleanup_directory_returns [of env d "emit (Log ERROR) w"]
  by (cases e) (auto simp: convert_except_def split: prod.splits outcome.splits)

lemma file_response_status:
  "status (fst (file_response env rng r w)) \<in> {200, 206, 400, 416}"
  by (cases r; cases rng) (simp_all add: file_response_def Let_def)

lemma post_convert_status:
  "\<not> (\<not> truthy_file pdf \<and> \<not> truthy_str pdf_url) \<Longrightarrow> \<not> (truthy_file pdf \<and> truthy_str pdf_url) \<Longrightarrow>
   status (fst (post_convert env rng pdf pdf_url w)) \<in> {200, 206, 400, 416, 500}"
proof -
  assume v: "\<not> (\<not> truthy_file pdf \<and> \<not> truthy_str pdf_url)" "\<not> (truthy_file pdf \<and> truthy_str pdf_url)"
  let ?d = "path_join TEMP_DIR (uuid4 env)"
  obtain r0 w1 where mk: "os_makedirs env ?d w = (r0, w1)" by (metis prod.collapse)
  show ?thesis
  proof (cases r0)
    case (Raise e)
    with mk have "\<exists>msg. e = Error msg"
      by (auto simp: os_makedirs_def split: option.splits node.splits)
    with Raise mk v show ?thesis
      by (auto simp: post_convert_def convert_pdf_def Let_def)
  next
    case (Return u)
    obtain r2 w2 where tb: "convert_try_block env pdf pdf_url ?d w1 = (r2, w2)"
      by (metis prod.collapse)
    show ?thesis
    proof (cases r2)
      case (Return resp)
      with tb mk \<open>r0 = Return u\<close> v
      have "post_convert env rng pdf pdf_url w = file_response env rng resp w2"
        by (auto simp add: post_convert_def convert_pdf_def Let_def)
      with file_response_status [of env rng resp w2] show ?thesis
        by auto
    next
      case (Raise e)
      obtain r3 w3 where ce: "convert_except env ?d e w2 = (r3, w3)" by (metis prod.collapse)
      from convert_except_status [OF ce] convert_try_block_status tb Raise
      have "(\<exists>m. r3 = Raise (HTTPException 500 m)) \<or> (\<exists>m. r3 = Raise (HTTPException 400 m))"
        by blast
      with tb mk \<open>r0 = Return u\<close> v Raise ce show ?thesis
        by (auto simp: post_convert_def convert_pdf_def Let_def)
    qed
  qed
qed

subsection \<open>The sample session\<close>

lemma sample_names:
  "page_name 0 = ''page_001.jpg''" "page_name (Suc 0) = ''page_002.jpg''"
  "page_name (Suc (Suc 0)) = ''page_003.jpg''" "page_name 1 = ''page_002.jpg''"
  "page_name 2 = ''page_003.jpg''"
  by code_simp+

lemma sample_workspace: "path_join TEMP_DIR (uuid4 sample_env) = ''temp/3f2a''"
  by (simp add: path_join_def TEMP_DIR_def sample_env_def startswith_def endswith_def)

lemma sample_paths:
  "path_join ''temp/3f2a'' ''input.pdf'' = ''temp/3f2a/input.pdf''"
  "path_join ''temp/3f2a'' ''images.zip'' = ''temp/3f2a/images.zip''"
  "path_join ''temp/3f2a'' ''page_001.jpg'' = ''temp/3f2a/page_001.jpg''"
  "path_join ''temp/3f2a'' ''page_002.jpg'' = ''temp/3f2a/page_002.jpg''"
  "path_join ''temp/3f2a'' ''page_003.jpg'' = ''temp/3f2a/page_003.jpg''"
  by (simp_all add: path_join_def startswith_def endswith_def)

subsection \<open>Rejected requests\<close>

text \<open>
  Claim C5, as the code has it. A request with neither \<open>pdf\<close> nor \<open>pdf_url\<close> set is
  answered with status 422 and the detail of line 164; a request with both set and a
  non-empty \<open>pdf_url\<close> is answered with status 422 and the detail of line 170. In
  both cases the world is unchanged: no directory, no file, no download, no log line.
\<close>

theorem convert_rejects_neither_or_both:
  "(pdf = None \<and> pdf_url = None \<longrightarrow>
      post_convert env rng pdf pdf_url w =
        (\<lparr>status = 422, detail = ''Debe proporcionar 'pdf' (archivo) o 'pdf_url' (URL)'',
          body = []\<rparr>, w)) \<and>
   (pdf \<noteq> None \<and> pdf_url \<noteq> None \<and> pdf_url \<noteq> Some [] \<longrightarrow>
      post_convert env rng pdf pdf_url w =
        (\<lparr>status = 422, detail = ''Proporcione solo 'pdf' o 'pdf_url', no ambos'',
          body = []\<rparr>, w))"
  using convert_pdf_neither [of pdf pdf_url env rng w] convert_pdf_both [of pdf pdf_url env rng w]
  by (auto simp add: truthy_file_def truthy_str_def)

theorem convert_rejects_neither_or_both_witness:
  "post_convert sample_env NoRange None None workspace_world =
     (\<lparr>status = 422, detail = ''Debe proporcionar 'pdf' (archivo) o 'pdf_url' (URL)'',
       body = []\<rparr>, workspace_world) \<and>
   post_convert sample_env NoRange (Some (UploadFile ''a.pdf'' (Inr [37, 80, 68, 70])))
       (Some ''http://host/doc.pdf'') workspace_world =
     (\<lparr>status = 422, detail = ''Proporcione solo 'pdf' o 'pdf_url', no ambos'',
       body = []\<rparr>, workspace_world)"
  using convert_rejects_neither_or_both [of None None sample_env NoRange workspace_world]
    convert_rejects_neither_or_both [of "Some (UploadFile ''a.pdf'' (Inr [37, 80, 68, 70]))"
      "Some ''http://host/doc.pdf''" sample_env NoRange workspace_world]
  by simp

text \<open>
  The claim as stated covers every request in which both fields are set. A
  \<open>pdf_url\<close> that is set to the empty string is false in line 167: the request
  passes the validation and the upload is processed, here up to the check of the
  file name.
\<close>

theorem convert_both_set_counterexample:
  "fst (post_convert sample_env NoRange (Some (UploadFile ''doc.txt'' (Inr [37, 80, 68, 70]))) (Some [])
          empty_world) =
     \<lparr>status = 400, detail = ''El archivo debe ser PDF'', body = []\<rparr>"
proof -
  let ?w0 = "put ''temp/3f2a'' Dir empty_world"
  have mk: "os_makedirs sample_env ''temp/3f2a'' empty_world = (Return (), ?w0)"
    by (simp add: os_makedirs_def empty_world_def sample_env_def)
  have tb: "convert_try_block sample_env (Some (UploadFile ''doc.txt'' (Inr [37, 80, 68, 70])))
              (Some []) ''temp/3f2a'' ?w0 =
            (Raise (HTTPException 400 ''El archivo debe ser PDF''), emit (Log INFO) ?w0)"
    by (simp add: convert_try_block_def resolve_source_def truthy_str_def resolve_upload_def
        Let_def lower_def lower_char_def endswith_def)
  have ce: "fst (convert_except sample_env ''temp/3f2a''
              (HTTPException 400 ''El archivo debe ser PDF'') (emit (Log INFO) ?w0)) =
            Raise (HTTPException 400 ''El archivo debe ser PDF'')"
    by (rule convert_except_http)
  then obtain w3 where ce': "convert_except sample_env ''temp/3f2a''
              (HTTPException 400 ''El archivo debe ser PDF'') (emit (Log INFO) ?w0) =
            (Raise (HTTPException 400 ''El archivo debe ser PDF''), w3)"
    by (metis prod.collapse)
  show ?thesis
    by (simp add: post_convert_def convert_pdf_def truthy_file_def truthy_str_def Let_def
        sample_workspace mk tb ce')
qed

text \<open>
  Claim C9. Without \<open>pdf\<close> and with \<open>pdf_url\<close> equal to the empty string the
  request is rejected with status 422 and the detail of line 164; the world is
  unchanged, so in particular no download is attempted.
\<close>

theorem empty_url_counts_as_absent:
  "post_convert env rng None (Some []) w =
     (\<lparr>status = 422, detail = ''Debe proporcionar 'pdf' (archivo) o 'pdf_url' (URL)'',
       body = []\<rparr>, w) \<and>
   trace (snd (post_convert env rng None (Some []) w)) = trace w"
  using convert_pdf_neither [of None "Some []" env rng w]
  by (simp add: truthy_file_def truthy_str_def)

text \<open>
  Claim C10. A request that is answered with status 422 leaves the world as it
  was: no workspace directory is created and no file is written. Status 422 is
  given exactly when the validation of lines 161--171 fails, that is, when neither
  or both parameters are true.
\<close>

theorem rejected_request_leaves_world:
  "(status (fst (post_convert env rng pdf pdf_url w)) = 422 \<longrightarrow>
      snd (post_convert env rng pdf pdf_url w) = w) \<and>
   (status (fst (post_convert env rng pdf pdf_url w)) = 422 \<longleftrightarrow>
      (\<not> truthy_file pdf \<and> \<not> truthy_str pdf_url) \<or> (truthy_file pdf \<and> truthy_str pdf_url))"
proof -
  consider (neither) "\<not> truthy_file pdf" "\<not> truthy_str pdf_url"
    | (both) "truthy_file pdf" "truthy_str pdf_url"
    | (one) "\<not> (\<not> truthy_file pdf \<and> \<not> truthy_str pdf_url)"
        "\<not> (truthy_file pdf \<and> truthy_str pdf_url)"
    by blast
  then show ?thesis
  proof cases
    case neither
    then show ?thesis using convert_pdf_neither [of pdf pdf_url env rng w] by simp
  next
    case both
    then show ?thesis using convert_pdf_both [of pdf pdf_url env rng w] by simp
  next
    case one
    from post_convert_status [OF one, of env rng w]
    have "status (fst (post_convert env rng pdf pdf_url w)) \<noteq> 422" by auto
    with one show ?thesis by simp
  qed
qed

theorem rejected_request_leaves_world_witness:
  "status (fst (post_convert sample_env NoRange None None workspace_world)) = 422 \<and>
   snd (post_convert sample_env NoRange None None workspace_world) = workspace_world"
proof -
  have "\<not> truthy_file None \<and> \<not> truthy_str None"
    by (simp add: truthy_file_def truthy_str_def)
  with rejected_request_leaves_world [of sample_env NoRange None None workspace_world]
  show ?thesis by blast
qed

theorem empty_url_counts_as_absent_witness:
  "status (fst (post_convert sample_env NoRange None (Some []) workspace_world)) = 422 \<and>
   snd (post_convert sample_env NoRange None (Some []) workspace_world) = workspace_world"
  using empty_url_counts_as_absent [of sample_env NoRange workspace_world] by simp

subsection \<open>Rasterize, then build the archive\<close>

lemma save_pages_returned:
  "save_pages env d imgs i acc w = (Return paths, w') \<Longrightarrow>
   paths = acc @ map (\<lambda>k. path_join d (page_name k)) [i..<i + length imgs]"
proof (induction imgs arbitrary: i acc w)
  case Nil
  then show ?case by simp
next
  case (Cons img imgs)
  have eq: "[i..<Suc (i + length imgs)] = i # [Suc i..<Suc (i + length imgs)]"
    using upt_rec [of i "Suc (i + length imgs)"] by simp
  from Cons.prems obtain w1 where
    r: "save_pages env d imgs (Suc i) (acc @ [path_join d (page_name i)]) w1 = (Return paths, w')"
    by (auto simp: image_save_def Let_def split: option.splits)
  from Cons.IH [OF r] show ?case
    by (simp add: eq del: upt_Suc)
qed

lemma save_pages_files:
  "save_pages env d imgs i acc w = (Return paths, w') \<Longrightarrow>
   \<forall>p\<in>set acc. \<exists>b. fs w p = Some (File b) \<Longrightarrow>
   \<forall>p\<in>set paths. \<exists>b. fs w' p = Some (File b)"
proof (induction imgs arbitrary: i acc w)
  case Nil
  then show ?case by simp
next
  case (Cons img imgs)
  let ?p = "path_join d (page_name i)"
  let ?w1 = "emit (Log INFO) (put ?p (File (jpeg_bytes env img)) w)"
  from Cons.prems(1) have
    r: "save_pages env d imgs (Suc i) (acc @ [?p]) ?w1 = (Return paths, w')"
    by (auto simp: image_save_def Let_def split: option.splits)
  have "\<forall>q\<in>set (acc @ [?p]). \<exists>b. fs ?w1 q = Some (File b)"
    using Cons.prems(2) by auto
  from Cons.IH [OF r this] show ?case .
qed

lemma save_pages_no_new_dir:
  "fs (snd (save_pages env d imgs i acc w)) p = Some Dir \<Longrightarrow> fs w p = Some Dir"
proof (induction imgs arbitrary: i acc w)
  case Nil
  then show ?case by simp
next
  case (Cons img imgs)
  show ?case
  proof (cases "save_fault env (path_join d (page_name i))")
    case (Some msg)
    with Cons.prems show ?thesis by (simp add: image_save_def Let_def)
  next
    case None
    with Cons.prems have "fs (snd (save_pages env d imgs (Suc i)
        (acc @ [path_join d (page_name i)])
        (emit (Log INFO) (put (path_join d (page_name i)) (File (jpeg_bytes env img)) w)))) p =
        Some Dir"
      by (simp add: image_save_def Let_def)
    from Cons.IH [OF this] show ?thesis by (simp split: if_splits)
  qed
qed

lemma convert_no_new_dir:
  "fs (snd (convert_pdf_to_images env pdf d w)) p = Some Dir \<Longrightarrow> fs w p = Some Dir"
proof -
  assume a: "fs (snd (convert_pdf_to_images env pdf d w)) p = Some Dir"
  show ?thesis
  proof (cases "convert_from_path env pdf")
    case (Inl msg)
    with a show ?thesis
      by (simp add: convert_pdf_to_images_def convert_try_def Let_def)
  next
    case (Inr images)
    obtain r w2 where s: "save_pages env d images 0 [] (emit (Log INFO) w) = (r, w2)"
      by (metis prod.collapse)
    with a Inr have "fs w2 p = Some Dir"
      by (cases r) (simp_all add: convert_pdf_to_images_def convert_try_def Let_def)
    with s save_pages_no_new_dir [of env d images 0 "[]" "emit (Log INFO) w" p]
    show ?thesis by simp
  qed
qed

lemma convert_returned_pages:
  assumes "convert_pdf_to_images env pdf d w = (Return paths, w1)" and "paths \<noteq> []"
    and "convert_from_path env pdf = Inr images"
  shows "paths = map (\<lambda>k. path_join d (page_name k)) [0..<length images]"
    and "\<forall>p\<in>set paths. \<exists>b. fs w1 p = Some (File b)"
proof -
  obtain r w2 where s: "save_pages env d images 0 [] (emit (Log INFO) w) = (r, w2)"
    by (metis prod.collapse)
  from assms s obtain ps where r: "r = Return ps"
    by (cases r) (auto simp: convert_pdf_to_images_def convert_try_def Let_def)
  with assms s have e: "ps = paths" "w1 = emit (Log INFO) w2"
    by (auto simp: convert_pdf_to_images_def convert_try_def Let_def)
  from s r e save_pages_returned [of env d images 0 "[]" "emit (Log INFO) w" paths w2]
  show "paths = map (\<lambda>k. path_join d (page_name k)) [0..<length images]"
    by simp
  from s r e save_pages_files [of env d images 0 "[]" "emit (Log INFO) w" paths w2]
  show "\<forall>p\<in>set paths. \<exists>b. fs w1 p = Some (File b)"
    by simp
qed

lemma filter_enumerate_all:
  "\<forall>p\<in>set ps. P p \<Longrightarrow> filter (\<lambda>(k, p). P p) (enumerate n ps) = enumerate n ps"
  by (induction ps arbitrary: n) auto

lemma map_index_enumerate:
  "map (\<lambda>(k, p). f k) (enumerate n ps) = map f [n..<n + length ps]"
proof (induction ps arbitrary: n)
  case Nil
  then show ?case by simp
next
  case (Cons p ps)
  have eq: "[n..<Suc (n + length ps)] = n # [Suc n..<Suc (n + length ps)]"
    using upt_rec [of n "Suc (n + length ps)"] by simp
  from Cons [of "Suc n"] show ?case
    by (simp add: eq del: upt_Suc)
qed

lemma create_zip_true_names:
  assumes t: "fst (create_zip_file env ps zp w) = Return True"
    and nodir: "\<forall>p\<in>set ps. fs w p \<noteq> Some Dir"
  shows "map fst (archive_entries env ps zp w) =
         map (\<lambda>(k, p). page_name k) (filter (\<lambda>(k, p). p = zp \<or> fs w p \<noteq> None) (enumerate 0 ps))"
proof -
  let ?w1 = "emit (Log INFO) w"
  let ?w2 = "put zp (File []) ?w1"
  from zipfile_open_cases [of env zp ?w1] t create_zip_open_failed [of env zp w _ ?w1 ps]
  have o: "zipfile_open env zp ?w1 = (Return (), ?w2)"
    by auto
  obtain es fault w3 where z: "zip_pages env ps 0 [] ?w2 = ((es, fault), w3)"
    by (metis prod.collapse)
  note co = create_zip_opened [OF o z]
  from co(1) t have f: "snd (fst (zip_pages env ps 0 [] ?w2)) = None"
    using z by simp
  have d: "\<forall>p\<in>set ps. fs ?w2 p \<noteq> Some Dir"
    using nodir by simp
  have c: "(\<lambda>(k, p). fs ?w2 p \<noteq> None) = (\<lambda>(k, p). p = zp \<or> fs w p \<noteq> None)"
    by (auto simp: fun_eq_iff)
  from zip_pages_names [OF f d] z co(3) show ?thesis
    by (simp only: c) simp
qed

lemma create_zip_true_when_sound:
  assumes "fs w zp \<noteq> Some Dir" and "zip_open_fault env zp = None"
    and "\<forall>p\<in>set ps. zip_write_fault env p = None"
    and "zip_bytes env (archive_entries env ps zp w) \<noteq> []"
  shows "fst (create_zip_file env ps zp w) = Return True"
proof -
  let ?w1 = "emit (Log INFO) w"
  let ?w2 = "put zp (File []) ?w1"
  from zipfile_open_cases [of env zp ?w1] assms(1,2)
  have o: "zipfile_open env zp ?w1 = (Return (), ?w2)"
    by auto
  obtain es fault w3 where z: "zip_pages env ps 0 [] ?w2 = ((es, fault), w3)"
    by (metis prod.collapse)
  note co = create_zip_opened [OF o z]
  from zip_pages_no_fault [OF assms(3), of 0 "[]" ?w2] z have "fault = None" by simp
  with co assms(4) show ?thesis by simp
qed

lemma pipeline_entry_names:
  assumes "convert_from_path env pdf = Inr images"
    and "fst (convert_pdf_to_images env pdf d w) = Return paths"
    and "paths \<noteq> []"
    and "fst (create_zip_file env paths zp (snd (convert_pdf_to_images env pdf d w))) = Return True"
  shows "map fst (archive_entries env paths zp (snd (convert_pdf_to_images env pdf d w))) =
         map (\<lambda>seq. ''page_'' @ format_03d seq @ ''.jpg'') [1..<Suc (length images)]"
proof -
  let ?w1 = "snd (convert_pdf_to_images env pdf d w)"
  from assms(2) have c: "convert_pdf_to_images env pdf d w = (Return paths, ?w1)"
    by (metis prod.collapse)
  note cp = convert_returned_pages [OF c assms(3) assms(1)]
  from cp(2) have nodir: "\<forall>p\<in>set paths. fs ?w1 p \<noteq> Some Dir"
    by auto
  from cp(2) have all: "\<forall>p\<in>set paths. p = zp \<or> fs ?w1 p \<noteq> None"
    by auto
  from cp(1) have len: "length paths = length images"
    by simp
  have "map fst (archive_entries env paths zp ?w1) =
        map (\<lambda>(k, p). page_name k)
          (filter (\<lambda>(k, p). p = zp \<or> fs ?w1 p \<noteq> None) (enumerate 0 paths))"
    by (rule create_zip_true_names [OF assms(4) nodir])
  also have "\<dots> = map (\<lambda>(k, p). page_name k) (enumerate 0 paths)"
    using filter_enumerate_all [of paths "\<lambda>p. p = zp \<or> fs ?w1 p \<noteq> None" 0] all by simp
  also have "\<dots> = map page_name [0..<length images]"
    using map_index_enumerate [of page_name 0 paths] len by simp
  also have "\<dots> = map (\<lambda>seq. ''page_'' @ format_03d seq @ ''.jpg'') (map Suc [0..<length images])"
    by (simp add: page_name_def)
  also have "\<dots> = map (\<lambda>seq. ''page_'' @ format_03d seq @ ''.jpg'') [1..<Suc (length images)]"
    by (simp only: map_Suc_upt One_nat_def)
  finally show ?thesis .
qed


lemma create_zip_true_file:
  assumes "fst (create_zip_file env ps zp w) = Return True"
  shows "fs (snd (create_zip_file env ps zp w)) zp =
           Some (File (zip_bytes env (archive_entries env ps zp w))) \<and>
         zip_bytes env (archive_entries env ps zp w) \<noteq> []"
proof -
  let ?w1 = "emit (Log INFO) w"
  let ?w2 = "put zp (File []) ?w1"
  from zipfile_open_cases [of env zp ?w1] assms create_zip_open_failed [of env zp w _ ?w1 ps]
  have o: "zipfile_open env zp ?w1 = (Return (), ?w2)"
    by auto
  obtain es fault w3 where z: "zip_pages env ps 0 [] ?w2 = ((es, fault), w3)"
    by (metis prod.collapse)
  from create_zip_opened [OF o z] assms show ?thesis by simp
qed

lemma render_success:
  "render_and_respond env p d w = (Return r, w') \<Longrightarrow>
   \<exists>paths w1 w2. convert_pdf_to_images env p d w = (Return paths, w1) \<and> paths \<noteq> [] \<and>
     create_zip_file env paths (path_join d ''images.zip'') w1 = (Return True, w2) \<and>
     w' = emit (Log INFO) w2 \<and>
     r = FileResponse (path_join d ''images.zip'') ''application/zip'' ''converted_images.zip'' d"
  by (auto simp: render_and_respond_def Let_def
      split: prod.splits outcome.splits if_splits bool.splits)

lemma render_succeeds:
  assumes "missing_or_empty w p = Return False"
    and "fst (convert_pdf_to_images env p d w) = Return paths"
    and "paths \<noteq> []"
    and "fst (create_zip_file env paths (path_join d ''images.zip'')
               (snd (convert_pdf_to_images env p d w))) = Return True"
  shows "fst (render_and_respond env p d w) =
           Return (FileResponse (path_join d ''images.zip'') ''application/zip''
                     ''converted_images.zip'' d)"
proof -
  let ?zp = "path_join d ''images.zip''"
  obtain w1 where cv: "convert_pdf_to_images env p d w = (Return paths, w1)"
    using assms(2) by (metis prod.collapse)
  with assms(4) obtain w2 where cz: "create_zip_file env paths ?zp w1 = (Return True, w2)"
    by (metis prod.collapse snd_conv)
  from create_zip_true_file [of env paths ?zp w1] cz
  have "fs w2 ?zp = Some (File (zip_bytes env (archive_entries env paths ?zp w1)))"
    "zip_bytes env (archive_entries env paths ?zp w1) \<noteq> []"
    by simp_all
  then have "missing_or_empty w2 ?zp = Return False"
    by (simp add: missing_or_empty_def os_path_exists_def os_path_getsize_def)
  with assms(1,3) cv cz show ?thesis
    by (simp add: render_and_respond_def Let_def)
qed

lemma render_archive:
  assumes "convert_from_path env p = Inr images"
    and "fst (render_and_respond env p d w) = Return r"
  shows "\<exists>entries.
           fs (snd (render_and_respond env p d w)) (path_join d ''images.zip'') =
             Some (File (zip_bytes env entries)) \<and>
           map fst entries =
             map (\<lambda>seq. ''page_'' @ format_03d seq @ ''.jpg'') [1..<Suc (length images)]"
proof -
  let ?zp = "path_join d ''images.zip''"
  from assms(2) obtain w' where rr: "render_and_respond env p d w = (Return r, w')"
    by (metis prod.collapse)
  from render_success [OF rr] obtain paths w1 w2 where
    cv: "convert_pdf_to_images env p d w = (Return paths, w1)" and ne: "paths \<noteq> []" and
    cz: "create_zip_file env paths ?zp w1 = (Return True, w2)" and w': "w' = emit (Log INFO) w2"
    by blast
  from cv have c1: "fst (convert_pdf_to_images env p d w) = Return paths"
    and c2: "snd (convert_pdf_to_images env p d w) = w1"
    by simp_all
  from cz c2 have c3: "fst (create_zip_file env paths ?zp
      (snd (convert_pdf_to_images env p d w))) = Return True"
    by simp
  from pipeline_entry_names [OF assms(1) c1 ne c3] c2
  have names: "map fst (archive_entries env paths ?zp w1) =
      map (\<lambda>seq. ''page_'' @ format_03d seq @ ''.jpg'') [1..<Suc (length images)]"
    by simp
  from create_zip_true_file [of env paths ?zp w1] cz
  have "fs w2 ?zp = Some (File (zip_bytes env (archive_entries env paths ?zp w1)))"
    by simp
  with rr w' have "fs (snd (render_and_respond env p d w)) ?zp =
      Some (File (zip_bytes env (archive_entries env paths ?zp w1)))"
    by simp
  with names show ?thesis by blast
qed

text \<open>
  Claim C8. Take two runs of the pipeline of lines 218--257 (verify the PDF, rasterize,
  build and verify the archive), in any two environments, workspaces and worlds, that
  both end with the file response. When the rasterizer gave the same number of pages
  in both runs, the archive files that the two runs leave at \<open>images.zip\<close> in their
  workspaces hold entries with the same names in the same order, namely
  \<open>page_001.jpg\<close>, ..., one per page: the names depend on the page count alone, not
  on the pixels, the JPEG bytes or the workspace.
\<close>

theorem same_pdf_same_entry_names:
  assumes "convert_from_path env pdf_path = Inr images"
    and "fst (render_and_respond env pdf_path temp_dir w) = Return r"
    and "convert_from_path env' pdf_path' = Inr images'"
    and "fst (render_and_respond env' pdf_path' temp_dir' w') = Return r'"
    and "length images' = length images"
  shows "\<exists>entries entries'.
           fs (snd (render_and_respond env pdf_path temp_dir w))
              (path_join temp_dir ''images.zip'') = Some (File (zip_bytes env entries)) \<and>
           fs (snd (render_and_respond env' pdf_path' temp_dir' w'))
              (path_join temp_dir' ''images.zip'') = Some (File (zip_bytes env' entries')) \<and>
           map fst entries =
             map (\<lambda>seq. ''page_'' @ format_03d seq @ ''.jpg'') [1..<Suc (length images)] \<and>
           map fst entries' = map fst entries"
proof -
  from render_archive [OF assms(1,2)] obtain entries where
    e: "fs (snd (render_and_respond env pdf_path temp_dir w)) (path_join temp_dir ''images.zip'') =
          Some (File (zip_bytes env entries))"
       "map fst entries =
          map (\<lambda>seq. ''page_'' @ format_03d seq @ ''.jpg'') [1..<Suc (length images)]"
    by blast
  from render_archive [OF assms(3,4)] obtain entries' where
    e': "fs (snd (render_and_respond env' pdf_path' temp_dir' w'))
           (path_join temp_dir' ''images.zip'') = Some (File (zip_bytes env' entries'))"
        "map fst entries' =
          map (\<lambda>seq. ''page_'' @ format_03d seq @ ''.jpg'') [1..<Suc (length images')]"
    by blast
  from e'(2) e(2) assms(5) have "map fst entries' = map fst entries"
    by (simp only:)
  with e e'(1) show ?thesis by blast
qed

lemma sample_convert:
  "fst (convert_pdf_to_images sample_env ''temp/3f2a/input.pdf'' ''temp/3f2a'' w) =
     Return [''temp/3f2a/page_001.jpg'', ''temp/3f2a/page_002.jpg'', ''temp/3f2a/page_003.jpg'']"
  by (simp add: convert_pdf_to_images_def convert_try_def image_save_def Let_def sample_env_def
      sample_names sample_paths)

lemma other_paths:
  "path_join ''temp/77b0'' ''page_001.jpg'' = ''temp/77b0/page_001.jpg''"
  "path_join ''temp/77b0'' ''page_002.jpg'' = ''temp/77b0/page_002.jpg''"
  "path_join ''temp/77b0'' ''page_003.jpg'' = ''temp/77b0/page_003.jpg''"
  "path_join ''temp/77b0'' ''images.zip'' = ''temp/77b0/images.zip''"
  by (simp_all add: path_join_def startswith_def endswith_def)

lemma other_convert:
  "fst (convert_pdf_to_images other_env ''temp/77b0/input.pdf'' ''temp/77b0'' w) =
     Return [''temp/77b0/page_001.jpg'', ''temp/77b0/page_002.jpg'', ''temp/77b0/page_003.jpg'']"
  by (simp add: convert_pdf_to_images_def convert_try_def image_save_def Let_def sample_env_def
      other_env_def sample_names other_paths)

theorem same_pdf_same_entry_names_witness:
  "\<exists>entries entries'.
     fs (snd (render_and_respond sample_env ''temp/3f2a/input.pdf'' ''temp/3f2a'' workspace_world))
        ''temp/3f2a/images.zip'' = Some (File (zip_bytes sample_env entries)) \<and>
     fs (snd (render_and_respond other_env ''temp/77b0/input.pdf'' ''temp/77b0''
                other_workspace_world))
        ''temp/77b0/images.zip'' = Some (File (zip_bytes other_env entries')) \<and>
     map fst entries = [''page_001.jpg'', ''page_002.jpg'', ''page_003.jpg''] \<and>
     map fst entries' = [''page_001.jpg'', ''page_002.jpg'', ''page_003.jpg'']"
proof -
  let ?ps = "[''temp/3f2a/page_001.jpg'', ''temp/3f2a/page_002.jpg'', ''temp/3f2a/page_003.jpg'']"
  let ?qs = "[''temp/77b0/page_001.jpg'', ''temp/77b0/page_002.jpg'', ''temp/77b0/page_003.jpg'']"
  let ?w1 = "snd (convert_pdf_to_images sample_env ''temp/3f2a/input.pdf'' ''temp/3f2a''
                workspace_world)"
  let ?v1 = "snd (convert_pdf_to_images other_env ''temp/77b0/input.pdf'' ''temp/77b0''
                other_workspace_world)"
  have a1: "convert_from_path sample_env ''temp/3f2a/input.pdf'' = Inr [[1], [2], [3]]"
    by (simp add: sample_env_def)
  have b1: "convert_from_path other_env ''temp/77b0/input.pdf'' = Inr [[4], [5], [6]]"
    by (simp add: other_env_def sample_env_def)
  have m1: "missing_or_empty workspace_world ''temp/3f2a/input.pdf'' = Return False"
    by (simp add: missing_or_empty_def os_path_exists_def os_path_getsize_def workspace_world_def)
  have m2: "missing_or_empty other_workspace_world ''temp/77b0/input.pdf'' = Return False"
    by (simp add: missing_or_empty_def os_path_exists_def os_path_getsize_def
        other_workspace_world_def)
  have nd1: "fs ?w1 ''temp/3f2a/images.zip'' \<noteq> Some Dir"
    using convert_no_new_dir [of sample_env "''temp/3f2a/input.pdf''" "''temp/3f2a''"
        workspace_world "''temp/3f2a/images.zip''"]
    by (auto simp: workspace_world_def)
  have nd2: "fs ?v1 ''temp/77b0/images.zip'' \<noteq> Some Dir"
    using convert_no_new_dir [of other_env "''temp/77b0/input.pdf''" "''temp/77b0''"
        other_workspace_world "''temp/77b0/images.zip''"]
    by (auto simp: other_workspace_world_def)
  have a4: "fst (create_zip_file sample_env ?ps ''temp/3f2a/images.zip'' ?w1) = Return True"
    by (rule create_zip_true_when_sound [OF nd1]) (simp_all add: sample_env_def)
  have b4: "fst (create_zip_file other_env ?qs ''temp/77b0/images.zip'' ?v1) = Return True"
    by (rule create_zip_true_when_sound [OF nd2]) (simp_all add: other_env_def sample_env_def)
  have a4': "fst (create_zip_file sample_env ?ps (path_join ''temp/3f2a'' ''images.zip'') ?w1) =
             Return True"
    by (simp only: sample_paths a4)
  have b4': "fst (create_zip_file other_env ?qs (path_join ''temp/77b0'' ''images.zip'') ?v1) =
             Return True"
    by (simp only: other_paths b4)
  have ne: "?ps \<noteq> []" "?qs \<noteq> []"
    by simp_all
  note r1 = render_succeeds [OF m1 sample_convert ne(1) a4']
  note r2 = render_succeeds [OF m2 other_convert ne(2) b4']
  have l: "length [[4::nat], [5], [6]] = length [[1::nat], [2], [3]]"
    by simp
  have f: "format_03d (Suc 0) = ''001''" "format_03d (Suc (Suc 0)) = ''002''"
    "format_03d (Suc (Suc (Suc 0))) = ''003''"
    by code_simp+
  have u: "[1..<Suc (length [[1::nat], [2], [3]])] = [Suc 0, Suc (Suc 0), Suc (Suc (Suc 0))]"
    by (simp add: upt_rec)
  from same_pdf_same_entry_names [OF a1 r1 b1 r2 l]
  show ?thesis
    by (simp add: u f sample_paths other_paths) metis
qed

subsection \<open>The workspace during a request\<close>

text \<open>The calls made inside the \<open>try\<close> block attempt no removal and write only
  below the workspace directory, which therefore stays a directory until the cleanup.\<close>

lemma removals_emit_log [simp]: "removals (emit (Log l) w) = removals w"
  by (simp add: removals_def)

lemma removals_emit_get [simp]: "removals (emit (HttpGet u) w) = removals w"
  by (simp add: removals_def)

lemma removals_emit_rmtree [simp]: "removals (emit (Rmtree d) w) = removals w @ [d]"
  by (simp add: removals_def)

lemma removals_put [simp]: "removals (put p n w) = removals w"
  by (simp add: removals_def)

lemma removals_fs_update [simp]: "removals (w\<lparr>fs := f\<rparr>) = removals w"
  by (simp add: removals_def)

lemma path_join_neq: "\<not> startswith b ''/'' \<Longrightarrow> b \<noteq> [] \<Longrightarrow> path_join a b \<noteq> a"
  by (auto simp: path_join_def)

lemma download_try_frame:
  "removals (snd (download_try env url out w)) = removals w \<and>
   (p \<noteq> out \<longrightarrow> fs (snd (download_try env url out w)) p = fs w p)"
  by (auto simp: download_try_def Let_def open_wb_def write_chunks_def os_path_getsize_def
      split: http_reply.split option.split)

lemma download_frame:
  "removals (snd (download_pdf_from_url env url out w)) = removals w \<and>
   (p \<noteq> out \<longrightarrow> fs (snd (download_pdf_from_url env url out w)) p = fs w p)"
proof -
  obtain r w1 where t: "download_try env url out w = (r, w1)"
    by (metis prod.collapse)
  with download_try_frame [of env url out w p]
  have f: "removals w1 = removals w" "p \<noteq> out \<longrightarrow> fs w1 p = fs w p"
    by simp_all
  show ?thesis
  proof (cases r)
    case (Return b)
    with t f show ?thesis by (simp add: download_pdf_from_url_def)
  next
    case (Raise e)
    with t f show ?thesis
      by (cases "fs w1 out")
         (auto simp: download_pdf_from_url_def Let_def os_path_exists_def os_remove_def
            split: node.split)
  qed
qed

lemma save_pages_frame:
  "removals (snd (save_pages env d imgs i acc w)) = removals w \<and>
   ((\<forall>k. p \<noteq> path_join d (page_name k)) \<longrightarrow> fs (snd (save_pages env d imgs i acc w)) p = fs w p)"
proof (induction imgs arbitrary: i acc w)
  case Nil
  then show ?case by simp
next
  case (Cons img imgs)
  show ?case
  proof (cases "save_fault env (path_join d (page_name i))")
    case (Some msg)
    then show ?thesis by (simp add: image_save_def Let_def)
  next
    case None
    with Cons [of "Suc i" "acc @ [path_join d (page_name i)]"
        "emit (Log INFO) (put (path_join d (page_name i)) (File (jpeg_bytes env img)) w)"]
    show ?thesis by (auto simp add: image_save_def Let_def)
  qed
qed

lemma convert_frame:
  "removals (snd (convert_pdf_to_images env pdf d w)) = removals w \<and>
   ((\<forall>k. p \<noteq> path_join d (page_name k)) \<longrightarrow>
      fs (snd (convert_pdf_to_images env pdf d w)) p = fs w p)"
proof (cases "convert_from_path env pdf")
  case (Inl msg)
  then show ?thesis
    by (simp add: convert_pdf_to_images_def convert_try_def Let_def)
next
  case (Inr images)
  obtain r w2 where s: "save_pages env d images 0 [] (emit (Log INFO) w) = (r, w2)"
    by (metis prod.collapse)
  with save_pages_frame [of env d images 0 "[]" "emit (Log INFO) w" p]
  have "removals w2 = removals w"
    "(\<forall>k. p \<noteq> path_join d (page_name k)) \<longrightarrow> fs w2 p = fs w p"
    by simp_all
  with s Inr show ?thesis
    by (cases r) (simp_all add: convert_pdf_to_images_def convert_try_def Let_def)
qed

lemma removals_zip_pages: "removals (snd (zip_pages env ps i es w)) = removals w"
  by (induction ps arbitrary: i es w) (auto simp: Let_def split: outcome.split)

lemma create_zip_frame:
  "removals (snd (create_zip_file env ps zp w)) = removals w \<and>
   (p \<noteq> zp \<longrightarrow> fs (snd (create_zip_file env ps zp w)) p = fs w p)"
proof -
  let ?w1 = "emit (Log INFO) w"
  from zipfile_open_cases [of env zp ?w1]
  consider (opened) "zipfile_open env zp ?w1 = (Return (), put zp (File []) ?w1)"
    | (failed) e where "zipfile_open env zp ?w1 = (Raise e, ?w1)"
    by auto
  then show ?thesis
  proof cases
    case failed
    from create_zip_open_failed [OF failed, of ps] show ?thesis by simp
  next
    case opened
    let ?w2 = "put zp (File []) ?w1"
    obtain es fault w3 where z: "zip_pages env ps 0 [] ?w2 = ((es, fault), w3)"
      by (metis prod.collapse)
    from z fs_zip_pages [of env ps 0 "[]" ?w2] removals_zip_pages [of env ps 0 "[]" ?w2]
    have w3: "fs w3 = fs ?w2" "removals w3 = removals w"
      by simp_all
    with opened z show ?thesis
      by (auto simp: create_zip_file_def create_zip_try_def Let_def zipfile_close_def
          os_path_exists_def os_path_getsize_def split: option.split)
  qed
qed


lemma workspace_children:
  "path_join d ''input.pdf'' \<noteq> d" "path_join d ''images.zip'' \<noteq> d"
  "path_join d (page_name k) \<noteq> d"
proof -
  show "path_join d ''input.pdf'' \<noteq> d" "path_join d ''images.zip'' \<noteq> d"
    by (rule path_join_neq; simp add: startswith_def)+
  have "page_name k \<noteq> []" by (simp add: page_name_def)
  with page_name_not_abs show "path_join d (page_name k) \<noteq> d"
    by (rule path_join_neq)
qed

lemma convert_pdf_to_images_returns:
  "\<exists>paths w'. convert_pdf_to_images env p d w = (Return paths, w')"
  by (auto simp: convert_pdf_to_images_def split: prod.split outcome.split)

lemma create_zip_file_returns:
  "\<exists>b w'. create_zip_file env ps zp w = (Return b, w')"
  by (auto simp: create_zip_file_def split: prod.split outcome.split)

lemma resolve_source_frame:
  "removals (snd (resolve_source env pdf pdf_url d w)) = removals w \<and>
   fs (snd (resolve_source env pdf pdf_url d w)) d = fs w d"
proof -
  have u: "\<And>url. removals (snd (resolve_url env url d w)) = removals w \<and>
                fs (snd (resolve_url env url d w)) d = fs w d"
  proof -
    fix url
    obtain r w2 where dl: "download_pdf_from_url env url (path_join d ''input.pdf'')
        (emit (Log INFO) w) = (r, w2)"
      by (metis prod.collapse)
    with download_frame [of env url "path_join d ''input.pdf''" "emit (Log INFO) w" d]
      workspace_children(1) [of d]
    have "removals w2 = removals w" "fs w2 d = fs w d"
      by auto
    with dl show "removals (snd (resolve_url env url d w)) = removals w \<and>
                fs (snd (resolve_url env url d w)) d = fs w d"
      by (cases r) (simp_all add: resolve_url_def Let_def)
  qed
  have f: "\<And>f. removals (snd (resolve_upload env f d w)) = removals w \<and>
                fs (snd (resolve_upload env f d w)) d = fs w d"
    using workspace_children(1) [of d]
    by (auto simp: resolve_upload_def Let_def open_wb_def file_write_def
        split: sum.split option.split)
  show ?thesis
    using u f by (simp add: resolve_source_def split: option.split)
qed

lemma render_frame:
  "removals (snd (render_and_respond env p d w)) = removals w \<and>
   fs (snd (render_and_respond env p d w)) d = fs w d"
proof -
  obtain b where me: "missing_or_empty w p = Return b"
    using missing_or_empty_returns by blast
  show ?thesis
  proof (cases b)
    case True
    with me show ?thesis by (simp add: render_and_respond_def)
  next
    case False
    obtain paths w1 where cv: "convert_pdf_to_images env p d w = (Return paths, w1)"
      using convert_pdf_to_images_returns by blast
    have "\<forall>k. d \<noteq> path_join d (page_name k)"
      using workspace_children(3) [of d] by metis
    with cv convert_frame [of env p d w d]
    have w1: "removals w1 = removals w" "fs w1 d = fs w d"
      by simp_all
    let ?zp = "path_join d ''images.zip''"
    obtain ok w2 where cz: "create_zip_file env paths ?zp w1 = (Return ok, w2)"
      using create_zip_file_returns by blast
    with create_zip_frame [of env paths ?zp w1 d] workspace_children(2) [of d] w1
    have w2: "removals w2 = removals w" "fs w2 d = fs w d"
      by auto
    obtain b2 where me2: "missing_or_empty w2 ?zp = Return b2"
      using missing_or_empty_returns by blast
    from me False cv cz me2 w1 w2 show ?thesis
      by (cases b2) (simp_all add: render_and_respond_def Let_def)
  qed
qed

lemma try_block_frame:
  "removals (snd (convert_try_block env pdf pdf_url d w)) = removals w \<and>
   fs (snd (convert_try_block env pdf pdf_url d w)) d = fs w d"
proof -
  obtain r w1 where rs: "resolve_source env pdf pdf_url d w = (r, w1)"
    by (metis prod.collapse)
  with resolve_source_frame [of env pdf pdf_url d w]
  have w1: "removals w1 = removals w" "fs w1 d = fs w d"
    by simp_all
  show ?thesis
  proof (cases r)
    case (Raise e)
    with rs w1 show ?thesis by (simp add: convert_try_block_def)
  next
    case (Return p)
    with rs w1 render_frame [of env p d w1] show ?thesis
      by (simp add: convert_try_block_def)
  qed
qed

lemma try_block_response:
  "convert_try_block env pdf pdf_url d w = (Return r, w') \<Longrightarrow>
   r = FileResponse (path_join d ''images.zip'') ''application/zip'' ''converted_images.zip'' d"
  by (auto simp: convert_try_block_def render_and_respond_def Let_def
      split: prod.splits outcome.splits if_splits bool.splits)

lemma cleanup_effect:
  assumes "fs w d = Some Dir"
  shows "removals (snd (cleanup_directory env d w)) = removals w @ [d] \<and>
         (rmtree_fault env d = None \<longrightarrow>
            (\<forall>p. inside d p \<longrightarrow> fs (snd (cleanup_directory env d w)) p = None))"
proof (cases "rmtree_fault env d")
  case None
  with assms cleanup_directory_removed [of w d env] show ?thesis
    by (simp add: remove_tree_def)
next
  case (Some msg)
  with assms cleanup_directory_partial [of w d env msg] show ?thesis
    by simp
qed

lemma makedirs_created:
  "os_makedirs env d w = (Return u, w1) \<Longrightarrow> fs w1 d = Some Dir \<and> removals w1 = removals w"
  by (auto simp: os_makedirs_def split: option.splits node.splits)

lemma file_response_sent:
  "rng = NoRange \<or> (\<exists>ranges. rng = RangeSatisfiable ranges) \<Longrightarrow>
   snd (file_response env rng (FileResponse p media_type name d) w) =
     snd (cleanup_directory env d w) \<and>
   status (fst (file_response env rng (FileResponse p media_type name d) w)) \<in> {200, 206}"
  by (auto simp: file_response_def Let_def)

text \<open>
  Claim C3, as the code has it. Take a request that passes the validation and for which
  \<open>os.makedirs\<close> succeeds, and let the archive be sent whenever the handler returns
  one (the whole file, status 200, or the byte ranges asked for, status 206). Whatever
  the exit (200 or 206 after the body has been sent, 400 or 500 raised by the handler),
  \<open>shutil.rmtree\<close> is called exactly once during the request, on the workspace
  directory of the session. When that removal does not fail, neither the workspace
  directory nor any path below it exists afterwards.
\<close>

theorem workspace_removal_on_every_exit:
  assumes "\<not> (\<not> truthy_file pdf \<and> \<not> truthy_str pdf_url)"
    and "\<not> (truthy_file pdf \<and> truthy_str pdf_url)"
    and "fst (os_makedirs env (path_join TEMP_DIR (uuid4 env)) w) = Return ()"
    and "(\<exists>r. fst (convert_pdf env pdf pdf_url w) = Return r) \<longrightarrow>
         rng = NoRange \<or> (\<exists>ranges. rng = RangeSatisfiable ranges)"
  shows "status (fst (post_convert env rng pdf pdf_url w)) \<in> {200, 206, 400, 500} \<and>
         removals (snd (post_convert env rng pdf pdf_url w)) =
           removals w @ [path_join TEMP_DIR (uuid4 env)] \<and>
         (rmtree_fault env (path_join TEMP_DIR (uuid4 env)) = None \<longrightarrow>
            (\<forall>p. inside (path_join TEMP_DIR (uuid4 env)) p \<longrightarrow>
                 fs (snd (post_convert env rng pdf pdf_url w)) p = None))"
proof -
  let ?d = "path_join TEMP_DIR (uuid4 env)"
  let ?goal = "\<lambda>w'. removals w' = removals w @ [?d] \<and>
     (rmtree_fault env ?d = None \<longrightarrow> (\<forall>p. inside ?d p \<longrightarrow> fs w' p = None))"
  from assms(3) obtain w1 where mk: "os_makedirs env ?d w = (Return (), w1)"
    by (metis prod.collapse)
  from makedirs_created [OF mk] have w1: "fs w1 ?d = Some Dir" "removals w1 = removals w"
    by simp_all
  obtain r2 w2 where tb: "convert_try_block env pdf pdf_url ?d w1 = (r2, w2)"
    by (metis prod.collapse)
  with try_block_frame [of env pdf pdf_url ?d w1] w1
  have w2: "fs w2 ?d = Some Dir" "removals w2 = removals w"
    by simp_all
  have "status (fst (post_convert env rng pdf pdf_url w)) \<noteq> 416 \<and>
        ?goal (snd (post_convert env rng pdf pdf_url w))"
  proof (cases r2)
    case (Return r)
    with tb try_block_response
    have r: "r = FileResponse (path_join ?d ''images.zip'') ''application/zip''
                   ''converted_images.zip'' ?d"
      by blast
    have cp: "convert_pdf env pdf pdf_url w = (Return r, w2)"
      using assms(1,2) mk tb Return
      by (auto simp add: convert_pdf_def Let_def)
    with assms(4) have sent: "rng = NoRange \<or> (\<exists>ranges. rng = RangeSatisfiable ranges)"
      by simp
    from cp have pc: "post_convert env rng pdf pdf_url w = file_response env rng r w2"
      by (simp add: post_convert_def)
    from file_response_sent [OF sent, of env "path_join ?d ''images.zip''" "''application/zip''"
        "''converted_images.zip''" ?d w2] r pc
    have "snd (post_convert env rng pdf pdf_url w) = snd (cleanup_directory env ?d w2)"
      "status (fst (post_convert env rng pdf pdf_url w)) \<in> {200, 206}"
      by simp_all
    with cleanup_effect [OF w2(1), of env] w2(2) show ?thesis
      by auto
  next
    case (Raise e)
    show ?thesis
    proof (cases e)
      case (HTTPException c m)
      obtain w3 where cl: "cleanup_directory env ?d w2 = (Return (), w3)"
        using cleanup_directory_pair by blast
      have "post_convert env rng pdf pdf_url w = (\<lparr>status = c, detail = m, body = []\<rparr>, w3)"
        using assms(1,2) mk tb Raise HTTPException cl
        by (auto simp add: post_convert_def convert_pdf_def convert_except_def Let_def)
      moreover from convert_try_block_status tb Raise HTTPException have "c = 400 \<or> c = 500"
        by blast
      ultimately show ?thesis
        using cleanup_effect [OF w2(1), of env] w2(2) cl by auto
    next
      case (Error msg)
      let ?w2' = "emit (Log ERROR) w2"
      obtain w3 where cl: "cleanup_directory env ?d ?w2' = (Return (), w3)"
        using cleanup_directory_pair by blast
      have d: "fs ?w2' ?d = Some Dir"
        using w2(1) by simp
      have "post_convert env rng pdf pdf_url w =
          (\<lparr>status = 500, detail = ''Error interno del servidor: '' @ msg, body = []\<rparr>, w3)"
        using assms(1,2) mk tb Raise Error cl
        by (auto simp add: post_convert_def convert_pdf_def convert_except_def Let_def)
      with cleanup_effect [OF d, of env] w2(2) cl show ?thesis
        by auto
    qed
  qed
  with post_convert_status [OF assms(1,2), of env rng w] show ?thesis
    by auto
qed

theorem workspace_removal_on_every_exit_witness:
  "removals (snd (post_convert sample_env NoRange None (Some ''http://host/doc.pdf'') empty_world)) =
     [''temp/3f2a''] \<and>
   fs (snd (post_convert sample_env NoRange None (Some ''http://host/doc.pdf'') empty_world))
     ''temp/3f2a'' = None \<and>
   fs (snd (post_convert sample_env NoRange None (Some ''http://host/doc.pdf'') empty_world))
     ''temp/3f2a/images.zip'' = None"
proof -
  have v: "\<not> (\<not> truthy_file None \<and> \<not> truthy_str (Some ''http://host/doc.pdf''))"
    "\<not> (truthy_file None \<and> truthy_str (Some ''http://host/doc.pdf''))"
    by (simp_all add: truthy_file_def truthy_str_def)
  have mk: "fst (os_makedirs sample_env (path_join TEMP_DIR (uuid4 sample_env)) empty_world) =
            Return ()"
    by (simp add: sample_workspace os_makedirs_def empty_world_def sample_env_def)
  have s: "(\<exists>r. fst (convert_pdf sample_env None (Some ''http://host/doc.pdf'') empty_world) =
              Return r) \<longrightarrow>
           NoRange = NoRange \<or> (\<exists>ranges. NoRange = RangeSatisfiable ranges)"
    by simp
  have i: "inside ''temp/3f2a'' ''temp/3f2a''" "inside ''temp/3f2a'' ''temp/3f2a/images.zip''"
    by (simp_all add: inside_def path_join_def startswith_def endswith_def)
  have n: "rmtree_fault sample_env ''temp/3f2a'' = None" "removals empty_world = []"
    by (simp_all add: sample_env_def removals_def empty_world_def)
  from workspace_removal_on_every_exit [OF v mk s] i n show ?thesis
    by (simp add: sample_workspace)
qed

text \<open>
  The claim as stated promises that no workspace directory remains after any
  request. \<open>cleanup_directory\<close> absorbs a failing removal: with a workspace that
  cannot be removed, the request is answered (here with status 400) and the directory
  is still on disk.
\<close>

theorem workspace_remains_counterexample:
  "status (fst (post_convert busy_env NoRange
          (Some (UploadFile ''doc.txt'' (Inr [37, 80, 68, 70]))) None empty_world)) = 400 \<and>
   fs (snd (post_convert busy_env NoRange
          (Some (UploadFile ''doc.txt'' (Inr [37, 80, 68, 70]))) None empty_world))
     ''temp/3f2a'' = Some Dir"
proof -
  let ?w0 = "put ''temp/3f2a'' Dir empty_world"
  let ?w1 = "emit (Log INFO) ?w0"
  let ?w3 = "emit (Log WARNING) ((emit (Rmtree ''temp/3f2a'') ?w1)
               \<lparr>fs := remove_some ''temp/3f2a'' (rmtree_deleted busy_env ''temp/3f2a'') (fs ?w1)\<rparr>)"
  have ws: "path_join TEMP_DIR (uuid4 busy_env) = ''temp/3f2a''"
    by (simp add: path_join_def TEMP_DIR_def busy_env_def sample_env_def startswith_def
        endswith_def)
  have mk: "os_makedirs busy_env ''temp/3f2a'' empty_world = (Return (), ?w0)"
    by (simp add: os_makedirs_def empty_world_def sample_env_def busy_env_def)
  have tb: "convert_try_block busy_env (Some (UploadFile ''doc.txt'' (Inr [37, 80, 68, 70])))
              None ''temp/3f2a'' ?w0 =
            (Raise (HTTPException 400 ''El archivo debe ser PDF''), ?w1)"
    by (simp add: convert_try_block_def resolve_source_def truthy_str_def resolve_upload_def
        Let_def lower_def lower_char_def endswith_def)
  have cl: "cleanup_directory busy_env ''temp/3f2a'' ?w1 = (Return (), ?w3)"
    by (rule cleanup_directory_partial) (simp_all add: busy_env_def sample_env_def)
  have pc: "post_convert busy_env NoRange (Some (UploadFile ''doc.txt'' (Inr [37, 80, 68, 70])))
              None empty_world =
            (\<lparr>status = 400, detail = ''El archivo debe ser PDF'', body = []\<rparr>, ?w3)"
    by (simp add: post_convert_def convert_pdf_def convert_except_def truthy_file_def
        truthy_str_def Let_def ws mk tb cl)
  have "fs ?w3 ''temp/3f2a'' = Some Dir"
    by (simp add: remove_some_def)
  with pc show ?thesis by simp
qed

subsection \<open>The upload branch\<close>

lemma handler_of_try:
  assumes "\<not> (\<not> truthy_file pdf \<and> \<not> truthy_str pdf_url)"
    and "\<not> (truthy_file pdf \<and> truthy_str pdf_url)"
    and "os_makedirs env (path_join TEMP_DIR (uuid4 env)) w = (Return (), w1)"
    and "convert_try_block env pdf pdf_url (path_join TEMP_DIR (uuid4 env)) w1 = (r, w2)"
  shows "fst (convert_pdf env pdf pdf_url w) =
           (case r of Return resp \<Rightarrow> Return resp
            | Raise (HTTPException c m) \<Rightarrow> Raise (HTTPException c m)
            | Raise (Error msg) \<Rightarrow>
                Raise (HTTPException 500 (''Error interno del servidor: '' @ msg)))"
proof (cases r)
  case (Return resp)
  with assms show ?thesis
    by (auto simp add: convert_pdf_def Let_def)
next
  case (Raise e)
  let ?d = "path_join TEMP_DIR (uuid4 env)"
  show ?thesis
  proof (cases e)
    case (HTTPException c m)
    from convert_except_http [of env ?d c m w2]
    obtain w3 where "convert_except env ?d (HTTPException c m) w2 = (Raise (HTTPException c m), w3)"
      by (metis prod.collapse)
    with assms Raise HTTPException show ?thesis
      by (auto simp add: convert_pdf_def Let_def)
  next
    case (Error msg)
    from convert_except_error [of env ?d msg w2]
    obtain w3 where "convert_except env ?d (Error msg) w2 =
        (Raise (HTTPException 500 (''Error interno del servidor: '' @ msg)), w3)"
      by (metis prod.collapse)
    with assms Raise Error show ?thesis
      by (auto simp add: convert_pdf_def Let_def)
  qed
qed

lemma status_of_raised:
  "fst (convert_pdf env pdf pdf_url w) = Raise (HTTPException c m) \<Longrightarrow>
   status (fst (post_convert env rng pdf pdf_url w)) = c"
  by (cases "convert_pdf env pdf pdf_url w") (simp add: post_convert_def)

lemma status_of_returned:
  "fst (convert_pdf env pdf pdf_url w) = Return r \<Longrightarrow> \<forall>msg. rng \<noteq> RangeMalformed msg \<Longrightarrow>
   status (fst (post_convert env rng pdf pdf_url w)) \<in> {200, 206, 416}"
  by (cases "convert_pdf env pdf pdf_url w"; cases r; cases rng)
     (simp_all add: post_convert_def file_response_def Let_def)

lemma render_status_after_check:
  "missing_or_empty w p = Return False \<Longrightarrow> render_and_respond env p d w = (r, w') \<Longrightarrow>
   (\<exists>resp. r = Return resp) \<or> (\<exists>m. r = Raise (HTTPException 500 m))"
  using missing_or_empty_returns [of w' "path_join d ''images.zip''"]
  by (auto simp: render_and_respond_def Let_def convert_pdf_to_images_no_raise
      create_zip_file_no_raise
      split: if_splits prod.splits outcome.splits bool.splits)

lemma resolve_upload_cases:
  "resolve_upload env f d w =
     (if \<not> endswith (lower (filename f)) ''.pdf'' then
        (Raise (HTTPException 400 ''El archivo debe ser PDF''), emit (Log INFO) w)
      else case read f of
        Inl msg \<Rightarrow> (Raise (Error msg), emit (Log INFO) w)
      | Inr content \<Rightarrow>
          if content = [] then
            (Raise (HTTPException 400
               (''El archivo PDF est'' @ [CHR 0xE1] @ '' vac'' @ [CHR 0xED] @ ''o'')),
             emit (Log INFO) w)
          else if fs w (path_join d ''input.pdf'') = Some Dir then
            (Raise (Error ''IsADirectoryError''), emit (Log INFO) w)
          else case open_fault env (path_join d ''input.pdf'') of
            Some msg \<Rightarrow> (Raise (Error msg), emit (Log INFO) w)
          | None \<Rightarrow>
              (case write_fault env (path_join d ''input.pdf'') of
                 Some (msg, n) \<Rightarrow>
                   (Raise (Error msg),
                    put (path_join d ''input.pdf'') (File (take n content))
                      (put (path_join d ''input.pdf'') (File []) (emit (Log INFO) w)))
               | None \<Rightarrow>
                   (Return (path_join d ''input.pdf''),
                    put (path_join d ''input.pdf'') (File content)
                      (put (path_join d ''input.pdf'') (File []) (emit (Log INFO) w)))))"
  by (auto simp: resolve_upload_def Let_def open_wb_def file_write_def
      split: sum.split option.split)

lemma upload_try_block:
  "\<not> truthy_str pdf_url \<Longrightarrow>
   convert_try_block env (Some f) pdf_url d w =
     (case resolve_upload env f d w of
        (Raise e, w1) \<Rightarrow> (Raise e, w1)
      | (Return pdf_path, w1) \<Rightarrow> render_and_respond env pdf_path d w1)"
  by (simp add: convert_try_block_def resolve_source_def)

lemma stored_upload_not_missing:
  "content \<noteq> [] \<Longrightarrow> missing_or_empty (put p (File content) w) p = Return False"
  by (simp add: missing_or_empty_def os_path_exists_def os_path_getsize_def)

text \<open>
  Claim C6, as the code has it. Take an upload request (no true \<open>pdf_url\<close>) whose
  workspace has been created. The handler fails with status 400 exactly when the
  file name does not end in \<open>.pdf\<close>, compared without regard to case, or the content
  read is empty; so does the response, unless the request carries a malformed
  \<open>Range\<close> header. Otherwise, when the content was read, \<open>input.pdf\<close> can be opened
  for writing and the write does not fail, the content is stored unchanged at
  \<open>input.pdf\<close> inside the workspace and the rest of the \<open>try\<close> block runs on that
  path; when reading the upload, opening the file or writing it raises, the handler
  fails with status 500.
\<close>

theorem upload_rejected_or_stored:
  assumes "\<not> truthy_str pdf_url"
    and "temp_dir = path_join TEMP_DIR (uuid4 env)"
    and "pdf_path = path_join temp_dir ''input.pdf''"
    and "os_makedirs env temp_dir w = (Return (), w1)"
  shows "((\<exists>m. fst (convert_pdf env (Some f) pdf_url w) = Raise (HTTPException 400 m)) \<longleftrightarrow>
            \<not> endswith (lower (filename f)) ''.pdf'' \<or> read f = Inr []) \<and>
         ((\<forall>msg. rng \<noteq> RangeMalformed msg) \<longrightarrow>
            (status (fst (post_convert env rng (Some f) pdf_url w)) = 400 \<longleftrightarrow>
               \<not> endswith (lower (filename f)) ''.pdf'' \<or> read f = Inr [])) \<and>
         (\<forall>content. endswith (lower (filename f)) ''.pdf'' \<and> read f = Inr content \<and>
             content \<noteq> [] \<and> fs w1 pdf_path \<noteq> Some Dir \<and> open_fault env pdf_path = None \<and>
             write_fault env pdf_path = None \<longrightarrow>
             fst (resolve_source env (Some f) pdf_url temp_dir w1) = Return pdf_path \<and>
             fs (snd (resolve_source env (Some f) pdf_url temp_dir w1)) pdf_path =
               Some (File content) \<and>
             convert_try_block env (Some f) pdf_url temp_dir w1 =
               render_and_respond env pdf_path temp_dir
                 (snd (resolve_source env (Some f) pdf_url temp_dir w1))) \<and>
         (endswith (lower (filename f)) ''.pdf'' \<and>
            ((\<exists>msg. read f = Inl msg) \<or>
             (\<exists>content. read f = Inr content \<and> content \<noteq> [] \<and>
                (fs w1 pdf_path = Some Dir \<or> open_fault env pdf_path \<noteq> None \<or>
                 write_fault env pdf_path \<noteq> None))) \<longrightarrow>
            (\<exists>m. fst (convert_pdf env (Some f) pdf_url w) = Raise (HTTPException 500 m)) \<and>
            status (fst (post_convert env rng (Some f) pdf_url w)) = 500)"
proof -
  let ?h = "fst (convert_pdf env (Some f) pdf_url w)"
  have v: "\<not> (\<not> truthy_file (Some f) \<and> \<not> truthy_str pdf_url)"
    "\<not> (truthy_file (Some f) \<and> truthy_str pdf_url)"
    using assms(1) by (simp_all add: truthy_file_def)
  have mk: "os_makedirs env (path_join TEMP_DIR (uuid4 env)) w = (Return (), w1)"
    using assms(2,4) by simp
  obtain r w2 where tb: "convert_try_block env (Some f) pdf_url temp_dir w1 = (r, w2)"
    by (metis prod.collapse)
  have st: "?h = (case r of Return resp \<Rightarrow> Return resp
            | Raise (HTTPException c m) \<Rightarrow> Raise (HTTPException c m)
            | Raise (Error msg) \<Rightarrow>
                Raise (HTTPException 500 (''Error interno del servidor: '' @ msg)))"
    using handler_of_try [OF v mk] tb assms(2) by simp
  note ub = upload_try_block [OF assms(1), of env f temp_dir w1]
  note rc = resolve_upload_cases [of env f temp_dir w1]
  have written: "resolve_upload env f temp_dir w1 =
        (Return pdf_path, put pdf_path (File content) (put pdf_path (File []) (emit (Log INFO) w1)))"
    if "endswith (lower (filename f)) ''.pdf''" "read f = Inr content" "content \<noteq> []"
      "fs w1 pdf_path \<noteq> Some Dir" "open_fault env pdf_path = None"
      "write_fault env pdf_path = None" for content
    using that rc assms(3) by simp
  have part2: "fst (resolve_source env (Some f) pdf_url temp_dir w1) = Return pdf_path \<and>
       fs (snd (resolve_source env (Some f) pdf_url temp_dir w1)) pdf_path = Some (File content) \<and>
       convert_try_block env (Some f) pdf_url temp_dir w1 =
         render_and_respond env pdf_path temp_dir
           (snd (resolve_source env (Some f) pdf_url temp_dir w1))"
    if "endswith (lower (filename f)) ''.pdf'' \<and> read f = Inr content \<and>
        content \<noteq> [] \<and> fs w1 pdf_path \<noteq> Some Dir \<and> open_fault env pdf_path = None \<and>
        write_fault env pdf_path = None" for content
  proof -
    from that written [of content] have
      w: "resolve_upload env f temp_dir w1 =
        (Return pdf_path, put pdf_path (File content) (put pdf_path (File []) (emit (Log INFO) w1)))"
      by blast
    with assms(1) ub show ?thesis
      by (simp add: resolve_source_def)
  qed
  have part3h: "\<exists>m. ?h = Raise (HTTPException 500 m)"
    if s: "endswith (lower (filename f)) ''.pdf''"
      and e: "(\<exists>msg. read f = Inl msg) \<or>
             (\<exists>content. read f = Inr content \<and> content \<noteq> [] \<and>
                (fs w1 pdf_path = Some Dir \<or> open_fault env pdf_path \<noteq> None \<or>
                 write_fault env pdf_path \<noteq> None))"
  proof -
    from s e rc assms(3) have "\<exists>msg w'. resolve_upload env f temp_dir w1 = (Raise (Error msg), w')"
      by (auto split: option.split)
    then obtain msg w' where "resolve_upload env f temp_dir w1 = (Raise (Error msg), w')"
      by blast
    with ub tb have "r = Raise (Error msg)" by simp
    with st show ?thesis by simp
  qed
  have part3: "(\<exists>m. ?h = Raise (HTTPException 500 m)) \<and>
               status (fst (post_convert env rng (Some f) pdf_url w)) = 500"
    if "endswith (lower (filename f)) ''.pdf'' \<and>
            ((\<exists>msg. read f = Inl msg) \<or>
             (\<exists>content. read f = Inr content \<and> content \<noteq> [] \<and>
                (fs w1 pdf_path = Some Dir \<or> open_fault env pdf_path \<noteq> None \<or>
                 write_fault env pdf_path \<noteq> None)))"
  proof -
    from that part3h obtain m where "?h = Raise (HTTPException 500 m)" by blast
    with status_of_raised [of env "Some f" pdf_url w 500 m rng] show ?thesis by blast
  qed
  have part1: "(\<exists>m. ?h = Raise (HTTPException 400 m)) \<longleftrightarrow>
            \<not> endswith (lower (filename f)) ''.pdf'' \<or> read f = Inr []"
  proof (cases "endswith (lower (filename f)) ''.pdf''")
    case False
    with rc ub tb have "r = Raise (HTTPException 400 ''El archivo debe ser PDF'')"
      by simp
    with st False show ?thesis by simp
  next
    case True
    show ?thesis
    proof (cases "read f")
      case (Inl msg)
      with True part3h show ?thesis by auto
    next
      case (Inr content)
      show ?thesis
      proof (cases "content = []")
        case True
        with \<open>endswith (lower (filename f)) ''.pdf''\<close> Inr rc ub tb
        have "\<exists>m. r = Raise (HTTPException 400 m)"
          by simp
        with st True Inr show ?thesis by auto
      next
        case False
        show ?thesis
        proof (cases "fs w1 pdf_path = Some Dir \<or> open_fault env pdf_path \<noteq> None \<or>
            write_fault env pdf_path \<noteq> None")
          case True
          with \<open>endswith (lower (filename f)) ''.pdf''\<close> Inr False part3h
          have "\<exists>m. ?h = Raise (HTTPException 500 m)" by blast
          with \<open>endswith (lower (filename f)) ''.pdf''\<close> Inr False show ?thesis by auto
        next
          case nofault: False
          let ?w = "put pdf_path (File content) (put pdf_path (File []) (emit (Log INFO) w1))"
          from nofault have nf: "fs w1 pdf_path \<noteq> Some Dir" "open_fault env pdf_path = None"
            "write_fault env pdf_path = None"
            by blast+
          from written [OF \<open>endswith (lower (filename f)) ''.pdf''\<close> Inr False nf]
          have "resolve_upload env f temp_dir w1 = (Return pdf_path, ?w)" .
          with ub tb have rr: "render_and_respond env pdf_path temp_dir ?w = (r, w2)"
            by simp
          from render_status_after_check [OF stored_upload_not_missing [OF False] rr]
          have "(\<exists>resp. r = Return resp) \<or> (\<exists>m. r = Raise (HTTPException 500 m))" .
          with st have "\<not> (\<exists>m. ?h = Raise (HTTPException 400 m))"
            by auto
          with \<open>endswith (lower (filename f)) ''.pdf''\<close> Inr False show ?thesis by simp
        qed
      qed
    qed
  qed
  have part1s: "status (fst (post_convert env rng (Some f) pdf_url w)) = 400 \<longleftrightarrow>
            \<not> endswith (lower (filename f)) ''.pdf'' \<or> read f = Inr []"
    if nm: "\<forall>msg. rng \<noteq> RangeMalformed msg"
  proof
    assume "\<not> endswith (lower (filename f)) ''.pdf'' \<or> read f = Inr []"
    with part1 obtain m where "?h = Raise (HTTPException 400 m)" by blast
    with status_of_raised [of env "Some f" pdf_url w 400 m rng]
    show "status (fst (post_convert env rng (Some f) pdf_url w)) = 400" by simp
  next
    assume s4: "status (fst (post_convert env rng (Some f) pdf_url w)) = 400"
    show "\<not> endswith (lower (filename f)) ''.pdf'' \<or> read f = Inr []"
    proof (cases r)
      case (Return resp)
      with st have "?h = Return resp" by simp
      from status_of_returned [OF this nm] s4 show ?thesis by simp
    next
      case (Raise e)
      show ?thesis
      proof (cases e)
        case (HTTPException c m)
        with Raise st have h: "?h = Raise (HTTPException c m)" by simp
        from status_of_raised [OF h, of rng] s4 have "c = 400" by simp
        with h part1 show ?thesis by blast
      next
        case (Error msg)
        with Raise st have "?h = Raise (HTTPException 500 (''Error interno del servidor: '' @ msg))"
          by simp
        from status_of_raised [OF this, of rng] s4 show ?thesis by simp
      qed
    qed
  qed
  from part1 part1s part2 part3 show ?thesis by blast
qed

lemma sample_suffix:
  "endswith (lower ''Report.PDF'') ''.pdf''" "endswith (lower ''a.pdf'') ''.pdf''"
  "\<not> endswith (lower ''doc.txt'') ''.pdf''"
  by (simp_all add: lower_def lower_char_def endswith_def)

theorem upload_rejected_or_stored_witness:
  "status (fst (post_convert sample_env NoRange
             (Some (UploadFile ''Report.PDF'' (Inr [37, 80, 68, 70]))) None empty_world)) \<noteq> 400 \<and>
   fs (snd (resolve_source sample_env (Some (UploadFile ''Report.PDF'' (Inr [37, 80, 68, 70])))
             None ''temp/3f2a'' (put ''temp/3f2a'' Dir empty_world))) ''temp/3f2a/input.pdf'' =
     Some (File [37, 80, 68, 70]) \<and>
   status (fst (post_convert sample_env NoRange
             (Some (UploadFile ''doc.txt'' (Inr [37, 80, 68, 70]))) None empty_world)) = 400"
proof -
  let ?w1 = "put ''temp/3f2a'' Dir empty_world"
  have a1: "\<not> truthy_str None"
    by (simp add: truthy_str_def)
  have a2: "''temp/3f2a'' = path_join TEMP_DIR (uuid4 sample_env)"
    by (simp add: sample_workspace)
  have a3: "''temp/3f2a/input.pdf'' = path_join ''temp/3f2a'' ''input.pdf''"
    by (simp add: sample_paths)
  have a4: "os_makedirs sample_env ''temp/3f2a'' empty_world = (Return (), ?w1)"
    by (simp add: os_makedirs_def empty_world_def sample_env_def)
  have h: "fs ?w1 ''temp/3f2a/input.pdf'' \<noteq> Some Dir"
    "open_fault sample_env ''temp/3f2a/input.pdf'' = None"
    "write_fault sample_env ''temp/3f2a/input.pdf'' = None"
    by (simp_all add: empty_world_def sample_env_def)
  have nm: "\<forall>msg. NoRange \<noteq> RangeMalformed msg"
    by simp
  from upload_rejected_or_stored [OF a1 a2 a3 a4,
      of "UploadFile ''Report.PDF'' (Inr [37, 80, 68, 70])" NoRange] sample_suffix(1) h nm
  have p: "status (fst (post_convert sample_env NoRange
              (Some (UploadFile ''Report.PDF'' (Inr [37, 80, 68, 70]))) None empty_world)) \<noteq> 400"
    "fs (snd (resolve_source sample_env (Some (UploadFile ''Report.PDF'' (Inr [37, 80, 68, 70])))
             None ''temp/3f2a'' ?w1)) ''temp/3f2a/input.pdf'' = Some (File [37, 80, 68, 70])"
    by simp_all
  from upload_rejected_or_stored [OF a1 a2 a3 a4,
      of "UploadFile ''doc.txt'' (Inr [37, 80, 68, 70])" NoRange] sample_suffix(3) nm
  have q: "status (fst (post_convert sample_env NoRange
              (Some (UploadFile ''doc.txt'' (Inr [37, 80, 68, 70]))) None empty_world)) = 400"
    by simp
  from p q show ?thesis by simp
qed

text \<open>
  The claim as stated promises the stored file for every upload that is not rejected
  with status 400. On a file system that refuses the write, an upload with a good name
  and content is neither rejected with 400 nor stored: \<open>open\<close> raises, nothing is
  written and the second \<open>except\<close> clause answers 500.
\<close>

theorem upload_not_stored_counterexample:
  "endswith (lower ''a.pdf'') ''.pdf'' \<and>
   fst (resolve_source readonly_env (Some (UploadFile ''a.pdf'' (Inr [37, 80, 68, 70]))) None
          ''temp/3f2a'' (put ''temp/3f2a'' Dir empty_world)) =
     Raise (Error ''Read-only file system'') \<and>
   fs (snd (resolve_source readonly_env (Some (UploadFile ''a.pdf'' (Inr [37, 80, 68, 70]))) None
          ''temp/3f2a'' (put ''temp/3f2a'' Dir empty_world))) ''temp/3f2a/input.pdf'' = None \<and>
   status (fst (post_convert readonly_env NoRange
          (Some (UploadFile ''a.pdf'' (Inr [37, 80, 68, 70]))) None empty_world)) = 500"
proof -
  let ?w1 = "put ''temp/3f2a'' Dir empty_world"
  let ?f = "UploadFile ''a.pdf'' (Inr [37, 80, 68, 70])"
  have ws: "path_join TEMP_DIR (uuid4 readonly_env) = ''temp/3f2a''"
    by (simp add: path_join_def TEMP_DIR_def readonly_env_def sample_env_def startswith_def
        endswith_def)
  have mk0: "os_makedirs readonly_env ''temp/3f2a'' empty_world = (Return (), ?w1)"
    by (simp add: os_makedirs_def empty_world_def sample_env_def readonly_env_def)
  have mk: "os_makedirs readonly_env (path_join TEMP_DIR (uuid4 readonly_env)) empty_world =
            (Return (), ?w1)"
    by (simp only: ws mk0)
  have ru: "resolve_upload readonly_env ?f ''temp/3f2a'' ?w1 =
            (Raise (Error ''Read-only file system''), emit (Log INFO) ?w1)"
    by (simp add: resolve_upload_cases sample_suffix sample_paths empty_world_def
        readonly_env_def sample_env_def)
  have rs: "resolve_source readonly_env (Some ?f) None ''temp/3f2a'' ?w1 =
            (Raise (Error ''Read-only file system''), emit (Log INFO) ?w1)"
    by (simp add: resolve_source_def truthy_str_def ru)
  have tb0: "convert_try_block readonly_env (Some ?f) None ''temp/3f2a'' ?w1 =
             (Raise (Error ''Read-only file system''), emit (Log INFO) ?w1)"
    by (simp add: convert_try_block_def rs)
  have tb: "convert_try_block readonly_env (Some ?f) None (path_join TEMP_DIR (uuid4 readonly_env))
              ?w1 = (Raise (Error ''Read-only file system''), emit (Log INFO) ?w1)"
    by (simp only: ws tb0)
  have v: "\<not> (\<not> truthy_file (Some ?f) \<and> \<not> truthy_str None)"
    "\<not> (truthy_file (Some ?f) \<and> truthy_str None)"
    by (simp_all add: truthy_file_def truthy_str_def)
  from handler_of_try [OF v mk tb]
  have "fst (convert_pdf readonly_env (Some ?f) None empty_world) =
          Raise (HTTPException 500 (''Error interno del servidor: '' @ ''Read-only file system''))"
    by simp
  from status_of_raised [OF this, of NoRange]
  have "status (fst (post_convert readonly_env NoRange (Some ?f) None empty_world)) = 500" .
  with rs sample_suffix(2) show ?thesis
    by (simp add: empty_world_def)
qed

end
